theory Spec2Isabelle
  imports Complex_Main
begin

section \<open>The mouse-down listener of the tools package\<close>

text \<open>
  This theory embeds \<^verbatim>\<open>packages/tools/src/eventListeners/mouse/mouseDownListener.ts\<close>:
  the module that turns raw mouse down, move and up events into the events
  \<^verbatim>\<open>MOUSE_DOWN\<close>, \<^verbatim>\<open>MOUSE_DOWN_ACTIVATE\<close>, \<^verbatim>\<open>MOUSE_DRAG\<close>, \<^verbatim>\<open>MOUSE_UP\<close> and \<^verbatim>\<open>MOUSE_CLICK\<close>,
  holding a mouse down back for a while to see whether it starts a double click.

  Every function of the module is a definition of the same name (without the leading
  underscore, which an Isabelle name cannot start with). The two module-level objects
  \<^verbatim>\<open>state\<close> and \<^verbatim>\<open>doubleClickState\<close> are fields of one record that every function takes and
  returns. What the module reaches outside itself is explicit too: the timers of the host,
  the listeners it registers on the document and on the element, and the calls it makes to
  its collaborators, kept in the order they happen.
\<close>

subsection \<open>Points\<close>

text \<open>
  A coordinate is a JavaScript number. The model takes it as a real number, so the three
  subtractions and the one sum of the module are exact; the rounding of doubles is not
  modelled.
\<close>

type_synonym Point2 = "real \<times> real"
type_synonym Point3 = "real \<times> real \<times> real"

record IPoints =
  page :: Point2
  client :: Point2
  canvas :: Point2
  world :: Point3

text \<open>
  An argument that the caller may leave out: \<^verbatim>\<open>null\<close>, \<^verbatim>\<open>undefined\<close> or an object.
\<close>

datatype 'a nullable = Null | Undefined | Obj 'a

text \<open>The test \<^verbatim>\<open>!x\<close> on such an argument: only \<^verbatim>\<open>null\<close> and \<^verbatim>\<open>undefined\<close> are falsy.\<close>

fun falsy :: "'a nullable \<Rightarrow> bool" where
  "falsy Null = True"
| "falsy Undefined = True"
| "falsy (Obj x) = False"

definition subtractPoints2D :: "Point2 \<Rightarrow> Point2 \<Rightarrow> Point2" where
  "subtractPoints2D point0 point1 = (fst point0 - fst point1, snd point0 - snd point1)"

definition subtractPoints3D :: "Point3 \<Rightarrow> Point3 \<Rightarrow> Point3" where
  "subtractPoints3D point0 point1 =
     (fst point0 - fst point1,
      fst (snd point0) - fst (snd point1),
      snd (snd point0) - snd (snd point1))"

fun getDeltaPoints :: "IPoints nullable \<Rightarrow> IPoints nullable \<Rightarrow> IPoints" where
  "getDeltaPoints (Obj currentPoints) (Obj lastPoints) =
     \<lparr> page = subtractPoints2D (page currentPoints) (page lastPoints),
       client = subtractPoints2D (client currentPoints) (client lastPoints),
       canvas = subtractPoints2D (canvas currentPoints) (canvas lastPoints),
       world = subtractPoints3D (world currentPoints) (world lastPoints) \<rparr>"
| "getDeltaPoints currentPoints lastPoints =
     \<lparr> page = (0, 0), client = (0, 0), canvas = (0, 0), world = (0, 0, 0) \<rparr>"

text \<open>
  \<^verbatim>\<open>JSON.parse(JSON.stringify(points))\<close> builds a new object with the same four arrays of
  numbers. Values have no identity here, so the copy is the value itself.
\<close>

definition copyPoints :: "IPoints \<Rightarrow> IPoints" where
  "copyPoints points = points"

subsection \<open>Collaborators\<close>

text \<open>
  The element that a gesture is tracked on is an opaque handle. An enabled element carries
  the two ids and, when it has one, its viewport, of which only \<^verbatim>\<open>canvasToWorld\<close> is used.
\<close>

type_synonym element = nat

record Viewport =
  canvasToWorld :: "Point2 \<Rightarrow> Point3"

record EnabledElement =
  eeRenderingEngineId :: string
  eeViewportId :: string
  viewport :: "Viewport option"

text \<open>
  Of a DOM mouse event the module reads \<^verbatim>\<open>buttons\<close> and, while the event is being
  dispatched, \<^verbatim>\<open>currentTarget\<close>. The coordinates are there for the point sampler.
\<close>

record MouseEvent =
  buttons :: nat
  currentTarget :: element
  pageX :: real
  pageY :: real
  clientX :: real
  clientY :: real

datatype Events = MOUSE_DOWN | MOUSE_DOWN_ACTIVATE | MOUSE_CLICK | MOUSE_UP | MOUSE_DRAG

text \<open>
  The detail object handed to \<^verbatim>\<open>triggerEvent\<close>. The field \<^verbatim>\<open>camera\<close> is always the empty
  object and is left out. Fields that share a name with a field of \<^verbatim>\<open>state\<close> carry the
  prefix \<open>ev\<close>.
\<close>

record EventDetail =
  event :: "MouseEvent option"
  eventName :: Events
  evElement :: "element option"
  evMouseButton :: "nat option"
  evRenderingEngineId :: "string option"
  evViewportId :: "string option"
  evStartPoints :: IPoints
  evLastPoints :: IPoints
  currentPoints :: IPoints
  deltaPoints :: IPoints

text \<open>
  The three imported functions are parameters of the model. \<^verbatim>\<open>getEnabledElement\<close> answers
  \<^verbatim>\<open>undefined\<close> (here \<open>None\<close>) for an element that is not enabled; \<^verbatim>\<open>triggerEvent\<close> answers
  whether no listener prevented the default, which is what the module calls
  \<^verbatim>\<open>notConsumed\<close>.
\<close>

record Env =
  getEnabledElement :: "element option \<Rightarrow> EnabledElement option"
  getMouseEventPoints :: "MouseEvent \<Rightarrow> element option \<Rightarrow> IPoints"
  triggerEvent :: "element option \<Rightarrow> Events \<Rightarrow> EventDetail \<Rightarrow> bool"

definition updateMouseEventsLastPoints :: "Env \<Rightarrow> element option \<Rightarrow> IPoints \<Rightarrow> IPoints" where
  "updateMouseEventsLastPoints env el lastPts =
     (case getEnabledElement env el of
        None \<Rightarrow> lastPts
      | Some enabledElement \<Rightarrow>
          (case viewport enabledElement of
             None \<Rightarrow> lastPts
           | Some vp \<Rightarrow>
               \<lparr> page = page lastPts,
                 client = client lastPts,
                 canvas = canvas lastPts,
                 world = canvasToWorld vp (canvas lastPts) \<rparr>))"

subsection \<open>State\<close>

text \<open>
  \<^verbatim>\<open>IMouseDownListenerState\<close>. A field that is \<^verbatim>\<open>undefined\<close> or \<^verbatim>\<open>null\<close> is \<open>None\<close>. A timeout
  handle is the positive integer that \<^verbatim>\<open>setTimeout\<close> returned, so a handle that is
  there is truthy.
\<close>

record IMouseDownListenerState =
  mouseButton :: "nat option"
  element :: "element option"
  renderingEngineId :: "string option"
  viewportId :: "string option"
  isClickEvent :: bool
  clickDelay :: nat
  preventClickTimeout :: "nat option"
  startPoints :: IPoints
  lastPoints :: IPoints

record IDoubleClickState =
  doubleClickTimeout :: "nat option"
  mouseDownEvent :: "MouseEvent option"
  mouseUpEvent :: "MouseEvent option"
  ignoreDoubleClick :: bool

definition defaultState :: IMouseDownListenerState where
  "defaultState =
     \<lparr> mouseButton = None,
       element = None,
       renderingEngineId = None,
       viewportId = None,
       isClickEvent = True,
       clickDelay = 200,
       preventClickTimeout = None,
       startPoints = \<lparr> page = (0, 0), client = (0, 0), canvas = (0, 0), world = (0, 0, 0) \<rparr>,
       lastPoints = \<lparr> page = (0, 0), client = (0, 0), canvas = (0, 0), world = (0, 0, 0) \<rparr> \<rparr>"

definition DOUBLE_CLICK_TOLERANCE_MS :: nat where
  "DOUBLE_CLICK_TOLERANCE_MS = 400"

definition MULTI_BUTTON_TOLERANCE_MS :: nat where
  "MULTI_BUTTON_TOLERANCE_MS = 150"

definition DOUBLE_CLICK_DRAG_TOLERANCE :: real where
  "DOUBLE_CLICK_DRAG_TOLERANCE = 3"

subsection \<open>The host: timers, listeners, calls made\<close>

text \<open>
  The two functions that the module hands to \<^verbatim>\<open>setTimeout\<close>.
\<close>

datatype Callback = DoStateMouseDownAndUp | PreventClickHandler

record Timer =
  handle :: nat
  due :: nat
  callback :: Callback

text \<open>
  The listeners that the module adds and removes by itself, with where they sit.
  \<^verbatim>\<open>mouseMoveListener\<close> is imported from a sibling module.
\<close>

datatype Target = Document | Element element

datatype DomEvent = Mouseup | Mousemove

datatype Listener = OnMouseUp | OnMouseDrag | OnMouseMove | MouseMoveListener

text \<open>
  What the module does to the outside, in order: a call of \<^verbatim>\<open>triggerEvent\<close> with its three
  arguments, a call of the imported \<^verbatim>\<open>mouseMoveListener\<close>, and the two calls on a DOM event
  that stop it.
\<close>

datatype Effect =
    Triggered "element option" Events EventDetail
  | MouseMoveListenerCalled MouseEvent
  | StopImmediatePropagation MouseEvent
  | PreventDefault MouseEvent

text \<open>
  What a listener that \<^verbatim>\<open>triggerEvent\<close> runs would find behind the call: the double click
  state and the pending timers as they are at that moment. One entry is kept for each call
  of \<^verbatim>\<open>triggerEvent\<close>, in the order of the calls; no function of the module reads them.
\<close>

record Seen =
  seenDoubleClickState :: IDoubleClickState
  seenTimers :: "Timer list"

record Engine =
  state :: IMouseDownListenerState
  doubleClickState :: IDoubleClickState
  now :: nat
  lastHandle :: nat
  timers :: "Timer list"
  listeners :: "(Target \<times> DomEvent \<times> Listener) set"
  effects :: "Effect list"
  seen :: "Seen list"

text \<open>
  The module as loaded: both objects as their initialisers write them, no timer, no
  listener of its own, nothing done yet.
\<close>

definition initialEngine :: Engine where
  "initialEngine =
     \<lparr> state = defaultState,
       doubleClickState =
         \<lparr> doubleClickTimeout = None, mouseDownEvent = None, mouseUpEvent = None,
           ignoreDoubleClick = False \<rparr>,
       now = 0,
       lastHandle = 0,
       timers = [],
       listeners = {},
       effects = [],
       seen = [] \<rparr>"

text \<open>
  A dereference of \<^verbatim>\<open>null\<close> or \<^verbatim>\<open>undefined\<close> throws. A function that can throw returns
  either the engine it reached, or the error together with the engine as the throw left
  it: what was assigned before the throw stays assigned.
\<close>

datatype Error = TypeError

type_synonym Result = "(Error \<times> Engine) + Engine"

definition andThen :: "Result \<Rightarrow> (Engine \<Rightarrow> Result) \<Rightarrow> Result" where
  "andThen r f = (case r of Inl e \<Rightarrow> Inl e | Inr w \<Rightarrow> f w)"

definition setTimeout :: "Callback \<Rightarrow> nat \<Rightarrow> Engine \<Rightarrow> nat \<times> Engine" where
  "setTimeout cb ms w =
     (let h = lastHandle w + 1
      in (h, w\<lparr> lastHandle := h,
                timers := timers w @ [\<lparr> handle = h, due = now w + ms, callback = cb \<rparr>] \<rparr>))"

definition clearTimeout :: "nat option \<Rightarrow> Engine \<Rightarrow> Engine" where
  "clearTimeout h w =
     (case h of
        None \<Rightarrow> w
      | Some i \<Rightarrow> w\<lparr> timers := filter (\<lambda>t. handle t \<noteq> i) (timers w) \<rparr>)"

text \<open>
  The listeners are kept as a set: adding one that is already there changes nothing, as
  in the DOM, and the order in which the listeners of one target are called is not used.
\<close>

definition addEventListener :: "Target \<Rightarrow> DomEvent \<Rightarrow> Listener \<Rightarrow> Engine \<Rightarrow> Engine" where
  "addEventListener tg ty l w = w\<lparr> listeners := insert (tg, ty, l) (listeners w) \<rparr>"

definition removeEventListener :: "Target \<Rightarrow> DomEvent \<Rightarrow> Listener \<Rightarrow> Engine \<Rightarrow> Engine" where
  "removeEventListener tg ty l w = w\<lparr> listeners := listeners w - {(tg, ty, l)} \<rparr>"

definition trigger :: "Env \<Rightarrow> element option \<Rightarrow> Events \<Rightarrow> EventDetail \<Rightarrow> Engine \<Rightarrow> bool \<times> Engine" where
  "trigger env el name detail w =
     (triggerEvent env el name detail,
      w\<lparr> effects := effects w @ [Triggered el name detail],
         seen := seen w @ [\<lparr> seenDoubleClickState = doubleClickState w, seenTimers = timers w \<rparr>] \<rparr>)"

subsection \<open>The functions of the module\<close>

definition isDragPastDoubleClickTolerance :: "Point2 \<Rightarrow> bool" where
  "isDragPastDoubleClickTolerance delta =
     (\<bar>fst delta\<bar> + \<bar>snd delta\<bar> > DOUBLE_CLICK_DRAG_TOLERANCE)"

definition preventClickHandler :: "Engine \<Rightarrow> Engine" where
  "preventClickHandler w = w\<lparr> state := (state w)\<lparr> isClickEvent := False \<rparr> \<rparr>"

definition clearDoubleClickTimeoutAndEvents :: "Engine \<Rightarrow> Engine" where
  "clearDoubleClickTimeoutAndEvents w =
     (let w1 = (if doubleClickTimeout (doubleClickState w) \<noteq> None
                then (clearTimeout (doubleClickTimeout (doubleClickState w)) w)
                       \<lparr> doubleClickState := (doubleClickState w)\<lparr> doubleClickTimeout := None \<rparr> \<rparr>
                else w)
      in w1\<lparr> doubleClickState :=
               (doubleClickState w1)\<lparr> mouseDownEvent := None, mouseUpEvent := None \<rparr> \<rparr>)"

text \<open>
  \<^verbatim>\<open>state.element?.f(...)\<close> is skipped when the element is \<^verbatim>\<open>null\<close>. The last line gives
  \<^verbatim>\<open>state\<close> a fresh copy of \<^verbatim>\<open>defaultState\<close>; the three fields that are \<^verbatim>\<open>undefined\<close> there
  are dropped by \<^verbatim>\<open>JSON.stringify\<close> and so read as \<^verbatim>\<open>undefined\<close> in the copy too.
\<close>

definition cleanUp :: "Engine \<Rightarrow> Engine" where
  "cleanUp w =
     (let w1 = removeEventListener Document Mouseup OnMouseUp w;
          w2 = (case element (state w1) of
                  None \<Rightarrow> w1
                | Some el \<Rightarrow> removeEventListener (Element el) Mousemove OnMouseMove w1);
          w3 = (case element (state w2) of
                  None \<Rightarrow> w2
                | Some el \<Rightarrow> addEventListener (Element el) Mousemove MouseMoveListener w2);
          w4 = clearDoubleClickTimeoutAndEvents w3
      in w4\<lparr> state := defaultState \<rparr>)"

text \<open>
  The mouse down that was held back, now done; \<open>evt\<close> is whatever the caller read out of
  \<^verbatim>\<open>doubleClickState.mouseDownEvent\<close>, \<^verbatim>\<open>null\<close> included. Both events are triggered with the
  same detail object, whose \<^verbatim>\<open>eventName\<close> is \<^verbatim>\<open>MOUSE_DOWN\<close>.
\<close>

definition doMouseDown :: "Env \<Rightarrow> MouseEvent option \<Rightarrow> Engine \<Rightarrow> Engine" where
  "doMouseDown env evt w =
     (let st = state w;
          delta = getDeltaPoints (Obj (startPoints st)) (Obj (startPoints st));
          eventDetail =
            \<lparr> event = evt,
              eventName = MOUSE_DOWN,
              evElement = element st,
              evMouseButton = mouseButton st,
              evRenderingEngineId = renderingEngineId st,
              evViewportId = viewportId st,
              evStartPoints = startPoints st,
              evLastPoints = startPoints st,
              currentPoints = startPoints st,
              deltaPoints = delta \<rparr>;
          w1 = w\<lparr> state := st\<lparr> lastPoints := copyPoints (evLastPoints eventDetail) \<rparr> \<rparr>;
          (notConsumed, w2) = trigger env (evElement eventDetail) MOUSE_DOWN eventDetail w1
      in if notConsumed
         then snd (trigger env (evElement eventDetail) MOUSE_DOWN_ACTIVATE eventDetail w2)
         else w2)"

text \<open>
  The listener for \<^verbatim>\<open>mouseup\<close> on the document. In the first branch
  \<^verbatim>\<open>state.element.addEventListener\<close> has no \<^verbatim>\<open>?.\<close>: it throws when the element is \<^verbatim>\<open>null\<close>, and
  then the last statement of the function is not reached.
\<close>

definition onMouseUp :: "Env \<Rightarrow> MouseEvent \<Rightarrow> Engine \<Rightarrow> Result" where
  "onMouseUp env evt w0 =
     (let w = clearTimeout (preventClickTimeout (state w0)) w0
      in if doubleClickTimeout (doubleClickState w) \<noteq> None then
           (if mouseUpEvent (doubleClickState w) = None then
              (let w1 = w\<lparr> doubleClickState := (doubleClickState w)\<lparr> mouseUpEvent := Some evt \<rparr> \<rparr>
               in case element (state w1) of
                    None \<Rightarrow> Inl (TypeError, w1)
                  | Some el \<Rightarrow>
                      Inr (removeEventListener Document Mousemove OnMouseDrag
                             (addEventListener (Element el) Mousemove OnMouseMove w1)))
            else Inr (removeEventListener Document Mousemove OnMouseDrag (cleanUp w)))
         else
           (let st = state w;
                name = (if isClickEvent st then MOUSE_CLICK else MOUSE_UP);
                current = getMouseEventPoints env evt (element st);
                delta = getDeltaPoints (Obj current) (Obj (lastPoints st));
                eventDetail =
                  \<lparr> event = Some evt,
                    eventName = name,
                    evElement = element st,
                    evMouseButton = mouseButton st,
                    evRenderingEngineId = renderingEngineId st,
                    evViewportId = viewportId st,
                    evStartPoints = copyPoints (startPoints st),
                    evLastPoints = copyPoints (lastPoints st),
                    currentPoints = current,
                    deltaPoints = delta \<rparr>;
                w1 = snd (trigger env (evElement eventDetail) name eventDetail w)
            in Inr (removeEventListener Document Mousemove OnMouseDrag (cleanUp w1))))"

text \<open>
  Finalising a pending decision: the flag, the two buffered events read out, the timer
  and the buffer cleared, the mouse down done, and the mouse up done if one was buffered.
\<close>

definition doStateMouseDownAndUp :: "Env \<Rightarrow> Engine \<Rightarrow> Result" where
  "doStateMouseDownAndUp env w0 =
     (let w1 = w0\<lparr> doubleClickState := (doubleClickState w0)\<lparr> ignoreDoubleClick := True \<rparr> \<rparr>;
          down = mouseDownEvent (doubleClickState w1);
          up = mouseUpEvent (doubleClickState w1);
          w2 = clearDoubleClickTimeoutAndEvents w1;
          w3 = doMouseDown env down w2
      in case up of
           None \<Rightarrow> Inr w3
         | Some u \<Rightarrow> onMouseUp env u w3)"

text \<open>
  The listener for \<^verbatim>\<open>mousemove\<close> on the document while the button is down. It returns at
  once for an element without viewport. While the timeout is pending a move within the
  tolerance returns as well; a move past it finalises the decision and goes on to the
  drag event, built from \<^verbatim>\<open>state\<close> as the finalising left it.
\<close>

definition onMouseDrag :: "Env \<Rightarrow> MouseEvent \<Rightarrow> Engine \<Rightarrow> Result" where
  "onMouseDrag env evt w =
     (case getEnabledElement env (element (state w)) of
        None \<Rightarrow> Inr w
      | Some enabledElement \<Rightarrow>
          (case viewport enabledElement of
             None \<Rightarrow> Inr w
           | Some vp \<Rightarrow>
               (let current = getMouseEventPoints env evt (element (state w));
                    lastPts = updateMouseEventsLastPoints env (element (state w)) (lastPoints (state w));
                    delta = getDeltaPoints (Obj current) (Obj lastPts);
                    go = (if doubleClickTimeout (doubleClickState w) \<noteq> None then
                            (if isDragPastDoubleClickTolerance (canvas delta)
                             then Some (doStateMouseDownAndUp env w)
                             else None)
                          else Some (Inr w))
                in case go of
                     None \<Rightarrow> Inr w
                   | Some r \<Rightarrow>
                       andThen r (\<lambda>w1.
                         (let st = state w1;
                              eventDetail =
                                \<lparr> event = Some evt,
                                  eventName = MOUSE_DRAG,
                                  evElement = element st,
                                  evMouseButton = mouseButton st,
                                  evRenderingEngineId = renderingEngineId st,
                                  evViewportId = viewportId st,
                                  evStartPoints = copyPoints (startPoints st),
                                  evLastPoints = copyPoints lastPts,
                                  currentPoints = current,
                                  deltaPoints = delta \<rparr>;
                              (notConsumed, w2) = trigger env (element st) MOUSE_DRAG eventDetail w1;
                              w3 = (if \<not> notConsumed
                                    then w2\<lparr> effects := effects w2 @
                                               [StopImmediatePropagation evt, PreventDefault evt] \<rparr>
                                    else w2)
                          in Inr (w3\<lparr> state := (state w3)\<lparr> lastPoints := copyPoints current \<rparr> \<rparr>))))))"

text \<open>
  The listener for \<^verbatim>\<open>mousemove\<close> on the element between the first mouse up and the end of
  the timeout.
\<close>

definition onMouseMove :: "Env \<Rightarrow> MouseEvent \<Rightarrow> Engine \<Rightarrow> Result" where
  "onMouseMove env evt w =
     (let current = getMouseEventPoints env evt (element (state w));
          lastPts = updateMouseEventsLastPoints env (element (state w)) (lastPoints (state w));
          delta = getDeltaPoints (Obj current) (Obj lastPts)
      in if \<not> isDragPastDoubleClickTolerance (canvas delta) then Inr w
         else andThen (doStateMouseDownAndUp env w)
                (\<lambda>w1. Inr (w1\<lparr> effects := effects w1 @ [MouseMoveListenerCalled evt] \<rparr>)))"

text \<open>
  The listener for \<^verbatim>\<open>mousedown\<close>, the default export. Two dereferences can throw: the
  buffered mouse down in the first test, and the destructuring of what
  \<^verbatim>\<open>getEnabledElement\<close> returned, which comes after the timeout has been started and the
  element and the buttons have been recorded.
\<close>

definition mouseDownListener :: "Env \<Rightarrow> MouseEvent \<Rightarrow> Engine \<Rightarrow> Result" where
  "mouseDownListener env evt w =
     (if doubleClickTimeout (doubleClickState w) \<noteq> None then
        (case mouseDownEvent (doubleClickState w) of
           None \<Rightarrow> Inl (TypeError, w)
         | Some first \<Rightarrow>
             if buttons evt = buttons first then Inr w
             else doStateMouseDownAndUp env
                    (w\<lparr> doubleClickState := (doubleClickState w)\<lparr> mouseDownEvent := Some evt \<rparr> \<rparr>))
      else
        (let (h, w1) = setTimeout DoStateMouseDownAndUp
                         (if buttons evt = 1 then DOUBLE_CLICK_TOLERANCE_MS
                          else MULTI_BUTTON_TOLERANCE_MS) w;
             w2 = w1\<lparr> doubleClickState :=
                       (doubleClickState w1)\<lparr> doubleClickTimeout := Some h,
                                               mouseDownEvent := Some evt,
                                               ignoreDoubleClick := False \<rparr> \<rparr>;
             w3 = w2\<lparr> state := (state w2)\<lparr> element := Some (currentTarget evt),
                                             mouseButton := Some (buttons evt) \<rparr> \<rparr>
         in case getEnabledElement env (element (state w3)) of
              None \<Rightarrow> Inl (TypeError, w3)
            | Some enabledElement \<Rightarrow>
                (let w4 = w3\<lparr> state := (state w3)\<lparr>
                             renderingEngineId := Some (eeRenderingEngineId enabledElement),
                             viewportId := Some (eeViewportId enabledElement) \<rparr> \<rparr>;
                     (h2, w5) = setTimeout PreventClickHandler (clickDelay (state w4)) w4;
                     w6 = w5\<lparr> state := (state w5)\<lparr> preventClickTimeout := Some h2 \<rparr> \<rparr>;
                     w7 = removeEventListener (Element (currentTarget evt)) Mousemove
                            MouseMoveListener w6;
                     start = getMouseEventPoints env evt (element (state w7));
                     w8 = w7\<lparr> state := (state w7)\<lparr> startPoints := copyPoints start,
                                                     lastPoints := copyPoints start \<rparr> \<rparr>
                 in Inr (addEventListener Document Mousemove OnMouseDrag
                           (addEventListener Document Mouseup OnMouseUp w8)))))"

text \<open>The listener for the browser's \<^verbatim>\<open>dblclick\<close>.\<close>

definition mouseDoubleClickIgnoreListener :: "MouseEvent \<Rightarrow> Engine \<Rightarrow> Engine" where
  "mouseDoubleClickIgnoreListener evt w =
     (if ignoreDoubleClick (doubleClickState w)
      then w\<lparr> doubleClickState := (doubleClickState w)\<lparr> ignoreDoubleClick := False \<rparr>,
              effects := effects w @ [StopImmediatePropagation evt, PreventDefault evt] \<rparr>
      else cleanUp w)"

subsection \<open>The event loop\<close>

text \<open>
  Everything runs on one thread, one callback at a time. An exception that a listener or
  a timer callback lets escape ends that callback and nothing else.
\<close>

definition settle :: "Result \<Rightarrow> Engine" where
  "settle r = (case r of Inl (e, w) \<Rightarrow> w | Inr w \<Rightarrow> w)"

definition runCallback :: "Env \<Rightarrow> Callback \<Rightarrow> Engine \<Rightarrow> Result" where
  "runCallback env cb w =
     (case cb of
        DoStateMouseDownAndUp \<Rightarrow> doStateMouseDownAndUp env w
      | PreventClickHandler \<Rightarrow> Inr (preventClickHandler w))"

text \<open>
  A timer fires if it is still pending: \<^verbatim>\<open>clearTimeout\<close> took a cleared one off the list.
  A timer that fires leaves the list; the handle stored in the state stays where it is.
\<close>

definition fireTimer :: "Env \<Rightarrow> Timer \<Rightarrow> Engine \<Rightarrow> Engine" where
  "fireTimer env t w =
     (if t \<in> set (timers w)
      then settle (runCallback env (callback t)
                     (w\<lparr> timers := filter (\<lambda>u. handle u \<noteq> handle t) (timers w),
                         now := max (now w) (due t) \<rparr>))
      else w)"

text \<open>
  Time passing up to \<open>t\<close>: the timers due by then fire, the earliest first, and among
  timers due together the one started first. No callback of this module starts a timer,
  so the timers to consider are those pending at the outset.
\<close>

definition advance :: "Env \<Rightarrow> nat \<Rightarrow> Engine \<Rightarrow> Engine" where
  "advance env t w =
     (let w1 = foldl (\<lambda>v tm. fireTimer env tm v) w
                 (sort_key due (filter (\<lambda>tm. due tm \<le> t) (timers w)))
      in w1\<lparr> now := max (now w1) t \<rparr>)"

text \<open>
  The raw inputs without movement. The package registers \<^verbatim>\<open>mouseDownListener\<close> and
  \<^verbatim>\<open>mouseDoubleClickIgnoreListener\<close> on the element elsewhere, once; \<^verbatim>\<open>_onMouseUp\<close> is called
  only while the module has it on the document.
\<close>

datatype Input = Down MouseEvent | Up MouseEvent | DblClick MouseEvent

definition dispatch :: "Env \<Rightarrow> Input \<Rightarrow> Engine \<Rightarrow> Engine" where
  "dispatch env inp w =
     (case inp of
        Down evt \<Rightarrow> settle (mouseDownListener env evt w)
      | Up evt \<Rightarrow>
          (if (Document, Mouseup, OnMouseUp) \<in> listeners w
           then settle (onMouseUp env evt w)
           else w)
      | DblClick evt \<Rightarrow> mouseDoubleClickIgnoreListener evt w)"

text \<open>Inputs with their arrival times; a timer due when an input arrives runs first.\<close>

fun run :: "Env \<Rightarrow> (nat \<times> Input) list \<Rightarrow> Engine \<Rightarrow> Engine" where
  "run env [] w = w"
| "run env ((t, inp) # rest) w = run env rest (dispatch env inp (advance env t w))"

text \<open>The names of the events triggered so far, in order.\<close>

fun triggeredNames :: "Effect list \<Rightarrow> Events list" where
  "triggeredNames [] = []"
| "triggeredNames (Triggered el name detail # es) = name # triggeredNames es"
| "triggeredNames (e # es) = triggeredNames es"

text \<open>The DOM events that the triggered events carry as their \<^verbatim>\<open>event\<close>, in order.\<close>

fun triggeredSources :: "Effect list \<Rightarrow> MouseEvent option list" where
  "triggeredSources [] = []"
| "triggeredSources (Triggered el name detail # es) = event detail # triggeredSources es"
| "triggeredSources (e # es) = triggeredSources es"

subsection \<open>What the handlers build\<close>

text \<open>
  Three terms that the statements below use: the detail object that \<^verbatim>\<open>_doMouseDown\<close>
  builds from an event and the state, the one that the second branch of \<^verbatim>\<open>_onMouseUp\<close>
  builds, and the listeners that \<^verbatim>\<open>_cleanUp\<close> leaves. Each is proved equal to what the
  function computes.
\<close>

definition mouseDownDetail :: "MouseEvent option \<Rightarrow> IMouseDownListenerState \<Rightarrow> EventDetail" where
  "mouseDownDetail evt st =
     \<lparr> event = evt,
       eventName = MOUSE_DOWN,
       evElement = element st,
       evMouseButton = mouseButton st,
       evRenderingEngineId = renderingEngineId st,
       evViewportId = viewportId st,
       evStartPoints = startPoints st,
       evLastPoints = startPoints st,
       currentPoints = startPoints st,
       deltaPoints = \<lparr> page = (0, 0), client = (0, 0), canvas = (0, 0), world = (0, 0, 0) \<rparr> \<rparr>"

definition mouseUpDetail :: "Env \<Rightarrow> MouseEvent \<Rightarrow> IMouseDownListenerState \<Rightarrow> EventDetail" where
  "mouseUpDetail env evt st =
     \<lparr> event = Some evt,
       eventName = (if isClickEvent st then MOUSE_CLICK else MOUSE_UP),
       evElement = element st,
       evMouseButton = mouseButton st,
       evRenderingEngineId = renderingEngineId st,
       evViewportId = viewportId st,
       evStartPoints = startPoints st,
       evLastPoints = lastPoints st,
       currentPoints = getMouseEventPoints env evt (element st),
       deltaPoints = getDeltaPoints (Obj (getMouseEventPoints env evt (element st)))
                       (Obj (lastPoints st)) \<rparr>"

definition listenersAfterCleanUp ::
  "element option \<Rightarrow> (Target \<times> DomEvent \<times> Listener) set \<Rightarrow> (Target \<times> DomEvent \<times> Listener) set" where
  "listenersAfterCleanUp el ls =
     (case el of
        None \<Rightarrow> ls - {(Document, Mouseup, OnMouseUp)}
      | Some e \<Rightarrow> insert (Element e, Mousemove, MouseMoveListener)
                   (ls - {(Document, Mouseup, OnMouseUp)} - {(Element e, Mousemove, OnMouseMove)}))"

text \<open>
  The detail object of a drag event: the points come from the state as the listener found
  it (\<open>st0\<close>), the other fields from the state at the time the event is triggered.
\<close>

definition mouseDragDetail ::
  "Env \<Rightarrow> MouseEvent \<Rightarrow> IMouseDownListenerState \<Rightarrow> IMouseDownListenerState \<Rightarrow> EventDetail" where
  "mouseDragDetail env evt st0 st =
     \<lparr> event = Some evt,
       eventName = MOUSE_DRAG,
       evElement = element st,
       evMouseButton = mouseButton st,
       evRenderingEngineId = renderingEngineId st,
       evViewportId = viewportId st,
       evStartPoints = startPoints st,
       evLastPoints = updateMouseEventsLastPoints env (element st0) (lastPoints st0),
       currentPoints = getMouseEventPoints env evt (element st0),
       deltaPoints = getDeltaPoints (Obj (getMouseEventPoints env evt (element st0)))
                       (Obj (updateMouseEventsLastPoints env (element st0) (lastPoints st0))) \<rparr>"

text \<open>
  The distance that the tolerance is about, in the words of the comment above the
  constant: the sum of the absolute differences of the two canvas coordinates.
\<close>

definition l1Distance :: "Point2 \<Rightarrow> Point2 \<Rightarrow> real" where
  "l1Distance a b = \<bar>fst a - fst b\<bar> + \<bar>snd a - snd b\<bar>"

text \<open>
  Between two gestures: \<^verbatim>\<open>state\<close> is the default, nothing is buffered, no timer is pending.
  The ignore flag may be left over from the gesture before.
\<close>

definition idle :: "Engine \<Rightarrow> bool" where
  "idle w \<longleftrightarrow>
     state w = defaultState
     \<and> doubleClickTimeout (doubleClickState w) = None
     \<and> mouseDownEvent (doubleClickState w) = None
     \<and> mouseUpEvent (doubleClickState w) = None
     \<and> timers w = []"

text \<open>
  \<^verbatim>\<open>_onMouseMove\<close> calls \<^verbatim>\<open>_doStateMouseDownAndUp\<close> without looking at the timeout. It is added
  to the element by the first mouse up of a pending decision and removed by \<^verbatim>\<open>_cleanUp\<close>,
  so wherever it is registered a decision is pending, a mouse up is buffered, and the
  element is the one in \<^verbatim>\<open>state\<close>. The property is proved below to hold of the module as
  loaded and to be kept by every listener and timer callback.
\<close>

definition moveListenerGuarded :: "Engine \<Rightarrow> bool" where
  "moveListenerGuarded w \<longleftrightarrow>
     (\<forall>el. (Element el, Mousemove, OnMouseMove) \<in> listeners w \<longrightarrow>
        doubleClickTimeout (doubleClickState w) \<noteq> None
        \<and> mouseUpEvent (doubleClickState w) \<noteq> None
        \<and> element (state w) = Some el)"

text \<open>
  The engine that a mouse down at time \<open>t\<close> on an enabled element makes of an idle one:
  both timers started, the event buffered, the flag reset, the two listeners on the
  document. It is proved below to be what \<^verbatim>\<open>mouseDownListener\<close> returns.
\<close>

definition pressedFrom :: "Env \<Rightarrow> EnabledElement \<Rightarrow> MouseEvent \<Rightarrow> nat \<Rightarrow> Engine \<Rightarrow> Engine" where
  "pressedFrom env ee e t w0 =
     w0\<lparr> state := defaultState\<lparr>
               element := Some (currentTarget e),
               mouseButton := Some (buttons e),
               renderingEngineId := Some (eeRenderingEngineId ee),
               viewportId := Some (eeViewportId ee),
               preventClickTimeout := Some (lastHandle w0 + 2),
               startPoints := getMouseEventPoints env e (Some (currentTarget e)),
               lastPoints := getMouseEventPoints env e (Some (currentTarget e)) \<rparr>,
         doubleClickState :=
           \<lparr> doubleClickTimeout = Some (lastHandle w0 + 1), mouseDownEvent = Some e,
             mouseUpEvent = None, ignoreDoubleClick = False \<rparr>,
         now := t,
         lastHandle := lastHandle w0 + 2,
         timers :=
           [\<lparr> handle = lastHandle w0 + 1,
              due = t + (if buttons e = 1 then 400 else 150),
              callback = DoStateMouseDownAndUp \<rparr>,
            \<lparr> handle = lastHandle w0 + 2, due = t + 200, callback = PreventClickHandler \<rparr>],
         listeners := insert (Document, Mousemove, OnMouseDrag)
                        (insert (Document, Mouseup, OnMouseUp)
                           (listeners w0 - {(Element (currentTarget e), Mousemove, MouseMoveListener)})) \<rparr>"

subsection \<open>A concrete setting\<close>

text \<open>
  One enabled element with a viewport whose world is the canvas plane, a sampler that
  reads the coordinates off the event, and no listener that consumes anything.
\<close>

definition demoEnv :: Env where
  "demoEnv =
     \<lparr> getEnabledElement =
         (\<lambda>el. if el = Some 7
               then Some \<lparr> eeRenderingEngineId = ''engine'', eeViewportId = ''viewport'',
                           viewport = Some \<lparr> canvasToWorld = (\<lambda>p. (fst p, snd p, 0)) \<rparr> \<rparr>
               else None),
       getMouseEventPoints =
         (\<lambda>evt el. \<lparr> page = (pageX evt, pageY evt),
                     client = (clientX evt, clientY evt),
                     canvas = (clientX evt, clientY evt),
                     world = (clientX evt, clientY evt, 0) \<rparr>),
       triggerEvent = (\<lambda>el name detail. True) \<rparr>"

definition mouseAt :: "nat \<Rightarrow> real \<Rightarrow> real \<Rightarrow> MouseEvent" where
  "mouseAt b x y =
     \<lparr> buttons = b, currentTarget = 7, pageX = x, pageY = y, clientX = x, clientY = y \<rparr>"

text \<open>The engine after one mouse down of the primary button at time 0.\<close>

definition pressedEngine :: Engine where
  "pressedEngine = dispatch demoEnv (Down (mouseAt 1 10 10)) initialEngine"

text \<open>The same engine after a second mouse down that adds the secondary button.\<close>

definition chordEngine :: Engine where
  "chordEngine = settle (mouseDownListener demoEnv (mouseAt 3 10 10) pressedEngine)"

text \<open>The setting once the element has been disabled: no enabled element is found.\<close>

definition disabledEnv :: Env where
  "disabledEnv = demoEnv\<lparr> getEnabledElement := (\<lambda>el. None) \<rparr>"

text \<open>
  The pressed engine finalised once; and the pressed engine dragged by 10, which finalises,
  with the time then passing up to 400, when the decision timer would have run out.
\<close>

definition finalizedOnce :: Engine where
  "finalizedOnce = settle (doStateMouseDownAndUp demoEnv pressedEngine)"

definition draggedThenExpired :: Engine where
  "draggedThenExpired =
     advance demoEnv 400 (settle (onMouseDrag demoEnv (mouseAt 1 20 10) pressedEngine))"



definition clickedOnce :: Engine where
  "clickedOnce =
     advance demoEnv 400
       (run demoEnv [(0, Down (mouseAt 1 10 10)), (50, Up (mouseAt 0 10 10))] initialEngine)"

section \<open>Properties\<close>

subsection \<open>Unfolding\<close>

lemmas host_defs = setTimeout_def clearTimeout_def addEventListener_def removeEventListener_def
  trigger_def andThen_def settle_def copyPoints_def
  DOUBLE_CLICK_TOLERANCE_MS_def MULTI_BUTTON_TOLERANCE_MS_def DOUBLE_CLICK_DRAG_TOLERANCE_def

lemmas handler_defs = mouseDownListener_def onMouseUp_def doStateMouseDownAndUp_def
  doMouseDown_def cleanUp_def clearDoubleClickTimeoutAndEvents_def preventClickHandler_def

lemmas loop_defs = advance_def dispatch_def fireTimer_def runCallback_def

lemmas demo_defs = demoEnv_def mouseAt_def initialEngine_def defaultState_def

lemma pressedEngine_value:
  "pressedEngine =
     \<lparr> state =
         \<lparr> mouseButton = Some 1, element = Some 7,
           renderingEngineId = Some ''engine'', viewportId = Some ''viewport'',
           isClickEvent = True, clickDelay = 200, preventClickTimeout = Some 2,
           startPoints = \<lparr> page = (10, 10), client = (10, 10), canvas = (10, 10), world = (10, 10, 0) \<rparr>,
           lastPoints = \<lparr> page = (10, 10), client = (10, 10), canvas = (10, 10), world = (10, 10, 0) \<rparr> \<rparr>,
       doubleClickState =
         \<lparr> doubleClickTimeout = Some 1, mouseDownEvent = Some (mouseAt 1 10 10),
           mouseUpEvent = None, ignoreDoubleClick = False \<rparr>,
       now = 0, lastHandle = 2,
       timers = [\<lparr> handle = 1, due = 400, callback = DoStateMouseDownAndUp \<rparr>,
                 \<lparr> handle = 2, due = 200, callback = PreventClickHandler \<rparr>],
       listeners = {(Document, Mousemove, OnMouseDrag), (Document, Mouseup, OnMouseUp)},
       effects = [], seen = [] \<rparr>"
  by (simp add: pressedEngine_def dispatch_def handler_defs host_defs demo_defs Let_def)

subsection \<open>The handlers in closed form\<close>

lemma clearTimeout_eq:
  "clearTimeout h w = w\<lparr> timers := filter (\<lambda>t. Some (handle t) \<noteq> h) (timers w) \<rparr>"
  by (cases h) (simp_all add: clearTimeout_def)

lemma clearDoubleClickTimeoutAndEvents_eq:
  "clearDoubleClickTimeoutAndEvents w =
     w\<lparr> timers := filter (\<lambda>t. Some (handle t) \<noteq> doubleClickTimeout (doubleClickState w)) (timers w),
        doubleClickState :=
          \<lparr> doubleClickTimeout = None, mouseDownEvent = None, mouseUpEvent = None,
            ignoreDoubleClick = ignoreDoubleClick (doubleClickState w) \<rparr> \<rparr>"
  by (cases "doubleClickTimeout (doubleClickState w)")
     (simp_all add: clearDoubleClickTimeoutAndEvents_def clearTimeout_eq)

lemma cleanUp_eq:
  "cleanUp w =
     w\<lparr> state := defaultState,
        timers := filter (\<lambda>t. Some (handle t) \<noteq> doubleClickTimeout (doubleClickState w)) (timers w),
        doubleClickState :=
          \<lparr> doubleClickTimeout = None, mouseDownEvent = None, mouseUpEvent = None,
            ignoreDoubleClick = ignoreDoubleClick (doubleClickState w) \<rparr>,
        listeners := listenersAfterCleanUp (element (state w)) (listeners w) \<rparr>"
  by (cases "element (state w)")
     (simp_all add: cleanUp_def clearDoubleClickTimeoutAndEvents_eq listenersAfterCleanUp_def
        addEventListener_def removeEventListener_def)

lemma doMouseDown_eq:
  "doMouseDown env evt w =
     w\<lparr> state := (state w)\<lparr> lastPoints := startPoints (state w) \<rparr>,
        effects := effects w @
          Triggered (element (state w)) MOUSE_DOWN (mouseDownDetail evt (state w)) #
          (if triggerEvent env (element (state w)) MOUSE_DOWN (mouseDownDetail evt (state w))
           then [Triggered (element (state w)) MOUSE_DOWN_ACTIVATE (mouseDownDetail evt (state w))]
           else []),
        seen := seen w @
          \<lparr> seenDoubleClickState = doubleClickState w, seenTimers = timers w \<rparr> #
          (if triggerEvent env (element (state w)) MOUSE_DOWN (mouseDownDetail evt (state w))
           then [\<lparr> seenDoubleClickState = doubleClickState w, seenTimers = timers w \<rparr>]
           else []) \<rparr>"
  by (simp add: doMouseDown_def mouseDownDetail_def trigger_def copyPoints_def
        subtractPoints2D_def subtractPoints3D_def Let_def)


lemma onMouseUp_ordinary:
  "doubleClickTimeout (doubleClickState w) = None \<Longrightarrow>
   onMouseUp env evt w =
     Inr (w\<lparr> state := defaultState,
             timers := filter (\<lambda>t. Some (handle t) \<noteq> preventClickTimeout (state w)) (timers w),
             doubleClickState :=
               \<lparr> doubleClickTimeout = None, mouseDownEvent = None, mouseUpEvent = None,
                 ignoreDoubleClick = ignoreDoubleClick (doubleClickState w) \<rparr>,
             listeners := listenersAfterCleanUp (element (state w)) (listeners w)
                            - {(Document, Mousemove, OnMouseDrag)},
             effects := effects w @
               [Triggered (element (state w)) (if isClickEvent (state w) then MOUSE_CLICK else MOUSE_UP)
                  (mouseUpDetail env evt (state w))],
             seen := seen w @
               [\<lparr> seenDoubleClickState = doubleClickState w,
                  seenTimers = filter (\<lambda>t. Some (handle t) \<noteq> preventClickTimeout (state w))
                                 (timers w) \<rparr>] \<rparr>)"
  by (simp add: onMouseUp_def clearTimeout_eq cleanUp_eq mouseUpDetail_def trigger_def
        copyPoints_def removeEventListener_def Let_def)

lemma onMouseUp_first:
  "doubleClickTimeout (doubleClickState w) \<noteq> None \<Longrightarrow>
   mouseUpEvent (doubleClickState w) = None \<Longrightarrow>
   element (state w) = Some el \<Longrightarrow>
   onMouseUp env evt w =
     Inr (w\<lparr> timers := filter (\<lambda>t. Some (handle t) \<noteq> preventClickTimeout (state w)) (timers w),
             doubleClickState := (doubleClickState w)\<lparr> mouseUpEvent := Some evt \<rparr>,
             listeners := insert (Element el, Mousemove, OnMouseMove) (listeners w)
                            - {(Document, Mousemove, OnMouseDrag)} \<rparr>)"
  by (simp add: onMouseUp_def clearTimeout_eq addEventListener_def removeEventListener_def Let_def)

lemma onMouseUp_second:
  "doubleClickTimeout (doubleClickState w) \<noteq> None \<Longrightarrow>
   mouseUpEvent (doubleClickState w) = Some u \<Longrightarrow>
   onMouseUp env evt w =
     Inr (w\<lparr> state := defaultState,
             timers := filter (\<lambda>t. Some (handle t) \<noteq> doubleClickTimeout (doubleClickState w))
                         (filter (\<lambda>t. Some (handle t) \<noteq> preventClickTimeout (state w)) (timers w)),
             doubleClickState :=
               \<lparr> doubleClickTimeout = None, mouseDownEvent = None, mouseUpEvent = None,
                 ignoreDoubleClick = ignoreDoubleClick (doubleClickState w) \<rparr>,
             listeners := listenersAfterCleanUp (element (state w)) (listeners w)
                            - {(Document, Mousemove, OnMouseDrag)} \<rparr>)"
  by (simp add: onMouseUp_def clearTimeout_eq cleanUp_eq removeEventListener_def Let_def)

lemma doStateMouseDownAndUp_no_up:
  "mouseUpEvent (doubleClickState w) = None \<Longrightarrow>
   doStateMouseDownAndUp env w =
     Inr (w\<lparr> state := (state w)\<lparr> lastPoints := startPoints (state w) \<rparr>,
             timers := filter (\<lambda>t. Some (handle t) \<noteq> doubleClickTimeout (doubleClickState w)) (timers w),
             doubleClickState :=
               \<lparr> doubleClickTimeout = None, mouseDownEvent = None, mouseUpEvent = None,
                 ignoreDoubleClick = True \<rparr>,
             effects := effects w @
               Triggered (element (state w)) MOUSE_DOWN
                 (mouseDownDetail (mouseDownEvent (doubleClickState w)) (state w)) #
               (if triggerEvent env (element (state w)) MOUSE_DOWN
                     (mouseDownDetail (mouseDownEvent (doubleClickState w)) (state w))
                then [Triggered (element (state w)) MOUSE_DOWN_ACTIVATE
                        (mouseDownDetail (mouseDownEvent (doubleClickState w)) (state w))]
                else []),
             seen := seen w @
               \<lparr> seenDoubleClickState =
                    \<lparr> doubleClickTimeout = None, mouseDownEvent = None, mouseUpEvent = None,
                      ignoreDoubleClick = True \<rparr>,
                  seenTimers = filter (\<lambda>t. Some (handle t) \<noteq> doubleClickTimeout (doubleClickState w))
                                 (timers w) \<rparr> #
               (if triggerEvent env (element (state w)) MOUSE_DOWN
                     (mouseDownDetail (mouseDownEvent (doubleClickState w)) (state w))
                then [\<lparr> seenDoubleClickState =
                    \<lparr> doubleClickTimeout = None, mouseDownEvent = None, mouseUpEvent = None,
                      ignoreDoubleClick = True \<rparr>,
                  seenTimers = filter (\<lambda>t. Some (handle t) \<noteq> doubleClickTimeout (doubleClickState w))
                                 (timers w) \<rparr>]
                else []) \<rparr>)"
  by (simp add: doStateMouseDownAndUp_def clearDoubleClickTimeoutAndEvents_eq doMouseDown_eq
        Let_def)

lemma doStateMouseDownAndUp_up:
  "mouseUpEvent (doubleClickState w) = Some u \<Longrightarrow>
   doStateMouseDownAndUp env w =
     Inr (w\<lparr> state := defaultState,
             timers := filter (\<lambda>t. Some (handle t) \<noteq> preventClickTimeout (state w))
                         (filter (\<lambda>t. Some (handle t) \<noteq> doubleClickTimeout (doubleClickState w))
                            (timers w)),
             doubleClickState :=
               \<lparr> doubleClickTimeout = None, mouseDownEvent = None, mouseUpEvent = None,
                 ignoreDoubleClick = True \<rparr>,
             listeners := listenersAfterCleanUp (element (state w)) (listeners w)
                            - {(Document, Mousemove, OnMouseDrag)},
             effects := effects w @
               Triggered (element (state w)) MOUSE_DOWN
                 (mouseDownDetail (mouseDownEvent (doubleClickState w)) (state w)) #
               (if triggerEvent env (element (state w)) MOUSE_DOWN
                     (mouseDownDetail (mouseDownEvent (doubleClickState w)) (state w))
                then [Triggered (element (state w)) MOUSE_DOWN_ACTIVATE
                        (mouseDownDetail (mouseDownEvent (doubleClickState w)) (state w))]
                else []) @
               [Triggered (element (state w)) (if isClickEvent (state w) then MOUSE_CLICK else MOUSE_UP)
                  (mouseUpDetail env u ((state w)\<lparr> lastPoints := startPoints (state w) \<rparr>))],
             seen := seen w @
               \<lparr> seenDoubleClickState =
                    \<lparr> doubleClickTimeout = None, mouseDownEvent = None, mouseUpEvent = None,
                      ignoreDoubleClick = True \<rparr>,
                  seenTimers = filter (\<lambda>t. Some (handle t) \<noteq> doubleClickTimeout (doubleClickState w))
                                 (timers w) \<rparr> #
               (if triggerEvent env (element (state w)) MOUSE_DOWN
                     (mouseDownDetail (mouseDownEvent (doubleClickState w)) (state w))
                then [\<lparr> seenDoubleClickState =
                    \<lparr> doubleClickTimeout = None, mouseDownEvent = None, mouseUpEvent = None,
                      ignoreDoubleClick = True \<rparr>,
                  seenTimers = filter (\<lambda>t. Some (handle t) \<noteq> doubleClickTimeout (doubleClickState w))
                                 (timers w) \<rparr>]
                else []) @
               [\<lparr> seenDoubleClickState =
                    \<lparr> doubleClickTimeout = None, mouseDownEvent = None, mouseUpEvent = None,
                      ignoreDoubleClick = True \<rparr>,
                  seenTimers = filter (\<lambda>t. Some (handle t) \<noteq> preventClickTimeout (state w))
                                 (filter (\<lambda>t. Some (handle t) \<noteq> doubleClickTimeout (doubleClickState w))
                                    (timers w)) \<rparr>] \<rparr>)"
  by (simp add: doStateMouseDownAndUp_def clearDoubleClickTimeoutAndEvents_eq doMouseDown_eq
        onMouseUp_ordinary Let_def)

lemma mouseDownListener_fresh:
  "doubleClickTimeout (doubleClickState w) = None \<Longrightarrow>
   getEnabledElement env (Some (currentTarget evt)) = Some ee \<Longrightarrow>
   mouseDownListener env evt w =
     Inr (w\<lparr> state := (state w)\<lparr>
               element := Some (currentTarget evt),
               mouseButton := Some (buttons evt),
               renderingEngineId := Some (eeRenderingEngineId ee),
               viewportId := Some (eeViewportId ee),
               preventClickTimeout := Some (lastHandle w + 2),
               startPoints := getMouseEventPoints env evt (Some (currentTarget evt)),
               lastPoints := getMouseEventPoints env evt (Some (currentTarget evt)) \<rparr>,
             doubleClickState := (doubleClickState w)\<lparr>
               doubleClickTimeout := Some (lastHandle w + 1),
               mouseDownEvent := Some evt,
               ignoreDoubleClick := False \<rparr>,
             lastHandle := lastHandle w + 2,
             timers := timers w @
               [\<lparr> handle = lastHandle w + 1,
                  due = now w + (if buttons evt = 1 then 400 else 150),
                  callback = DoStateMouseDownAndUp \<rparr>,
                \<lparr> handle = lastHandle w + 2,
                  due = now w + clickDelay (state w),
                  callback = PreventClickHandler \<rparr>],
             listeners := insert (Document, Mousemove, OnMouseDrag)
                            (insert (Document, Mouseup, OnMouseUp)
                               (listeners w - {(Element (currentTarget evt), Mousemove, MouseMoveListener)})) \<rparr>)"
  by (simp add: mouseDownListener_def host_defs Let_def)

lemma canvas_delta_distance:
  "isDragPastDoubleClickTolerance
     (canvas (getDeltaPoints (Obj cur) (Obj (updateMouseEventsLastPoints env el lst))))
   \<longleftrightarrow> 3 < l1Distance (canvas cur) (canvas lst)"
  by (simp add: isDragPastDoubleClickTolerance_def l1Distance_def subtractPoints2D_def
        DOUBLE_CLICK_DRAG_TOLERANCE_def updateMouseEventsLastPoints_def
      split: option.splits)

lemma doStateMouseDownAndUp_press:
  "\<exists>w1 rest.
      doStateMouseDownAndUp env w = Inr w1
    \<and> effects w1 = effects w @
        Triggered (element (state w)) MOUSE_DOWN
          (mouseDownDetail (mouseDownEvent (doubleClickState w)) (state w)) # rest
    \<and> doubleClickState w1 =
        \<lparr> doubleClickTimeout = None, mouseDownEvent = None, mouseUpEvent = None,
          ignoreDoubleClick = True \<rparr>"
  by (cases "mouseUpEvent (doubleClickState w)")
     (simp_all add: doStateMouseDownAndUp_no_up doStateMouseDownAndUp_up)

lemma onMouseDrag_armed:
  assumes "doubleClickTimeout (doubleClickState w) \<noteq> None"
    and "getEnabledElement env (element (state w)) = Some ee"
    and "viewport ee = Some vp"
  shows "onMouseDrag env evt w =
     (if 3 < l1Distance (canvas (getMouseEventPoints env evt (element (state w))))
               (canvas (lastPoints (state w)))
      then andThen (doStateMouseDownAndUp env w) (\<lambda>w1.
        Inr (w1\<lparr> state := (state w1)\<lparr>
                   lastPoints := getMouseEventPoints env evt (element (state w)) \<rparr>,
                 effects := effects w1 @
                   Triggered (element (state w1)) MOUSE_DRAG
                     (mouseDragDetail env evt (state w) (state w1)) #
                   (if triggerEvent env (element (state w1)) MOUSE_DRAG
                        (mouseDragDetail env evt (state w) (state w1))
                    then [] else [StopImmediatePropagation evt, PreventDefault evt]),
                 seen := seen w1 @
                   [\<lparr> seenDoubleClickState = doubleClickState w1, seenTimers = timers w1 \<rparr>] \<rparr>))
      else Inr w)"
  using assms
  apply (simp only: onMouseDrag_def option.case Let_def canvas_delta_distance)
  apply (simp add: trigger_def copyPoints_def andThen_def mouseDragDetail_def split: sum.splits)
  done


lemma onMouseMove_eq:
  "onMouseMove env evt w =
     (if 3 < l1Distance (canvas (getMouseEventPoints env evt (element (state w))))
               (canvas (lastPoints (state w)))
      then andThen (doStateMouseDownAndUp env w)
             (\<lambda>w1. Inr (w1\<lparr> effects := effects w1 @ [MouseMoveListenerCalled evt] \<rparr>))
      else Inr w)"
  by (simp only: onMouseMove_def Let_def canvas_delta_distance) simp

lemma onMouseDrag_no_viewport:
  "getEnabledElement env (element (state w)) = None
     \<or> (\<exists>ee. getEnabledElement env (element (state w)) = Some ee \<and> viewport ee = None) \<Longrightarrow>
   onMouseDrag env evt w = Inr w"
  by (auto simp: onMouseDrag_def)

subsection \<open>Timers and the event loop\<close>

lemma fireTimer_PreventClickHandler:
  "tm \<in> set (timers w) \<Longrightarrow> callback tm = PreventClickHandler \<Longrightarrow>
   fireTimer env tm w =
     w\<lparr> state := (state w)\<lparr> isClickEvent := False \<rparr>,
        timers := filter (\<lambda>u. handle u \<noteq> handle tm) (timers w),
        now := max (now w) (due tm) \<rparr>"
  by (simp add: fireTimer_def runCallback_def preventClickHandler_def settle_def)

lemma fireTimer_DoStateMouseDownAndUp:
  "tm \<in> set (timers w) \<Longrightarrow> callback tm = DoStateMouseDownAndUp \<Longrightarrow>
   fireTimer env tm w =
     settle (doStateMouseDownAndUp env
       (w\<lparr> timers := filter (\<lambda>u. handle u \<noteq> handle tm) (timers w),
           now := max (now w) (due tm) \<rparr>))"
  by (simp add: fireTimer_def runCallback_def)

lemma advance_none_due:
  "\<forall>tm \<in> set (timers w). t < due tm \<Longrightarrow> advance env t w = w\<lparr> now := max (now w) t \<rparr>"
proof -
  assume "\<forall>tm \<in> set (timers w). t < due tm"
  then have "filter (\<lambda>tm. due tm \<le> t) (timers w) = []"
    by (auto simp: filter_empty_conv)
  then show ?thesis by (simp add: advance_def)
qed

lemma triggeredNames_append:
  "triggeredNames (xs @ ys) = triggeredNames xs @ triggeredNames ys"
  by (induction xs rule: triggeredNames.induct) simp_all

lemma idle_initialEngine: "idle initialEngine"
  by (simp add: idle_def initialEngine_def)

lemma press_from_idle:
  assumes "idle w0" and "now w0 \<le> t"
    and "getEnabledElement env (Some (currentTarget e)) = Some ee"
  shows "dispatch env (Down e) (advance env t w0) = pressedFrom env ee e t w0"
proof -
  have adv: "advance env t w0 = w0\<lparr> now := t \<rparr>"
    using assms(1,2) by (simp add: advance_def idle_def max_def)
  have fresh: "doubleClickTimeout (doubleClickState (w0\<lparr> now := t \<rparr>)) = None"
    using assms(1) by (simp add: idle_def)
  show ?thesis
    using assms(1)
    by (simp add: adv dispatch_def mouseDownListener_fresh [OF fresh assms(3)] settle_def
          pressedFrom_def idle_def defaultState_def)
qed


lemma held_past_delay_release_is_up:
  assumes idle: "idle w0" and t0: "now w0 \<le> t0"
    and enabled: "getEnabledElement env (Some (currentTarget e)) = Some ee"
    and held: "t0 + 200 < t1"
    and later: "t1 \<le> T" "t0 + (if buttons e = 1 then 400 else 150) \<le> T"
  shows "\<exists>acts. set acts \<subseteq> {MOUSE_DOWN_ACTIVATE}
    \<and> triggeredNames (effects (advance env T (run env [(t0, Down e), (t1, Up u)] w0))) =
        triggeredNames (effects w0) @ MOUSE_DOWN # acts @ [MOUSE_UP]"
proof -
  define w1 where "w1 = pressedFrom env ee e t0 w0"
  have press: "dispatch env (Down e) (advance env t0 w0) = w1"
    unfolding w1_def by (rule press_from_idle [OF idle t0 enabled])
  have up_listening: "(Document, Mouseup, OnMouseUp) \<in> listeners w1"
    by (simp add: w1_def pressedFrom_def)
  consider (buffered) "buttons e = 1" "t1 < t0 + 400"
    | (late) "buttons e = 1" "t0 + 400 \<le> t1"
    | (chord) "buttons e \<noteq> 1"
    by linarith
  then show ?thesis
  proof cases
    case buffered
    have a1: "advance env t1 w1 =
        w1\<lparr> state := (state w1)\<lparr> isClickEvent := False \<rparr>,
            timers := [\<lparr> handle = lastHandle w0 + 1, due = t0 + 400,
                         callback = DoStateMouseDownAndUp \<rparr>],
            now := t1 \<rparr>"
      using buffered held
      by (simp add: advance_def w1_def pressedFrom_def fireTimer_PreventClickHandler max_def)
    define w2 where "w2 = dispatch env (Up u) (advance env t1 w1)"
    have w2: "w2 = w1\<lparr> state := (state w1)\<lparr> isClickEvent := False \<rparr>,
            timers := [\<lparr> handle = lastHandle w0 + 1, due = t0 + 400,
                         callback = DoStateMouseDownAndUp \<rparr>],
            now := t1,
            doubleClickState := (doubleClickState w1)\<lparr> mouseUpEvent := Some u \<rparr>,
            listeners := insert (Element (currentTarget e), Mousemove, OnMouseMove) (listeners w1)
                            - {(Document, Mousemove, OnMouseDrag)} \<rparr>"
      unfolding w2_def a1
      by (simp add: dispatch_def onMouseUp_first [where el = "currentTarget e"] settle_def
            w1_def pressedFrom_def)
    have run: "run env [(t0, Down e), (t1, Up u)] w0 = w2"
      by (simp add: press w2_def)
    have a2: "advance env T w2 =
        (settle (doStateMouseDownAndUp env (w2\<lparr> timers := [], now := max t1 (t0 + 400) \<rparr>)))
          \<lparr> now := T \<rparr>"
      using later buffered
      by (simp add: advance_def w2 fireTimer_DoStateMouseDownAndUp doStateMouseDownAndUp_up
            settle_def max_def)
    show ?thesis
      unfolding run a2
      by (simp add: w2 doStateMouseDownAndUp_up settle_def triggeredNames_append w1_def
            pressedFrom_def)
  next
    case late
    have run: "run env [(t0, Down e), (t1, Up u)] w0 = dispatch env (Up u) (advance env t1 w1)"
      by (simp add: press)
    show ?thesis
      unfolding run
      using late held later
      by (simp add: w1_def pressedFrom_def advance_def fireTimer_PreventClickHandler
            fireTimer_DoStateMouseDownAndUp doStateMouseDownAndUp_no_up settle_def dispatch_def
            onMouseUp_ordinary triggeredNames_append max_def)
  next
    case chord
    have run: "run env [(t0, Down e), (t1, Up u)] w0 = dispatch env (Up u) (advance env t1 w1)"
      by (simp add: press)
    show ?thesis
      unfolding run
      using chord held later
      by (simp add: w1_def pressedFrom_def advance_def fireTimer_PreventClickHandler
            fireTimer_DoStateMouseDownAndUp doStateMouseDownAndUp_no_up settle_def dispatch_def
            onMouseUp_ordinary triggeredNames_append max_def)
  qed
qed

subsection \<open>Where the move listener is registered\<close>

lemma moveListenerGuarded_initialEngine: "moveListenerGuarded initialEngine"
  by (simp add: moveListenerGuarded_def initialEngine_def)

lemma doStateMouseDownAndUp_no_move_listener:
  assumes "moveListenerGuarded w" and "doStateMouseDownAndUp env w = Inr w1"
  shows "(Element el, Mousemove, OnMouseMove) \<notin> listeners w1"
proof (cases "mouseUpEvent (doubleClickState w)")
  case None
  then show ?thesis
    using assms by (auto simp add: doStateMouseDownAndUp_no_up moveListenerGuarded_def)
next
  case (Some u)
  then show ?thesis
    using assms
    by (cases "element (state w)")
       (auto simp add: doStateMouseDownAndUp_up moveListenerGuarded_def listenersAfterCleanUp_def)
qed

lemma doStateMouseDownAndUp_unarmed:
  "doStateMouseDownAndUp env w = Inr w1 \<Longrightarrow> doubleClickTimeout (doubleClickState w1) = None"
  by (cases "mouseUpEvent (doubleClickState w)")
     (auto simp add: doStateMouseDownAndUp_no_up doStateMouseDownAndUp_up)

lemma moveListenerGuarded_doStateMouseDownAndUp:
  "moveListenerGuarded w \<Longrightarrow> moveListenerGuarded (settle (doStateMouseDownAndUp env w))"
proof -
  assume g: "moveListenerGuarded w"
  obtain w1 where w1: "doStateMouseDownAndUp env w = Inr w1"
    using doStateMouseDownAndUp_press [of env w] by blast
  have "\<forall>el. (Element el, Mousemove, OnMouseMove) \<notin> listeners w1"
    using doStateMouseDownAndUp_no_move_listener [OF g w1] by blast
  then show ?thesis
    by (simp add: w1 settle_def moveListenerGuarded_def)
qed

lemma moveListenerGuarded_cleanUp:
  "moveListenerGuarded w \<Longrightarrow> moveListenerGuarded (cleanUp w)"
  by (cases "element (state w)")
     (auto simp add: cleanUp_eq moveListenerGuarded_def listenersAfterCleanUp_def)

lemma moveListenerGuarded_mouseDownListener:
  assumes g: "moveListenerGuarded w"
  shows "moveListenerGuarded (settle (mouseDownListener env evt w))"
proof (cases "doubleClickTimeout (doubleClickState w)")
  case None
  then show ?thesis
    using g
    by (cases "getEnabledElement env (Some (currentTarget evt))")
       (auto simp add: mouseDownListener_def host_defs Let_def moveListenerGuarded_def)
next
  case (Some h)
  show ?thesis
  proof (cases "mouseDownEvent (doubleClickState w)")
    case None
    then show ?thesis
      using Some g by (simp add: mouseDownListener_def settle_def)
  next
    case (Some first)
    have g': "moveListenerGuarded
        (w\<lparr> doubleClickState := (doubleClickState w)\<lparr> mouseDownEvent := Some evt \<rparr> \<rparr>)"
      using g by (simp add: moveListenerGuarded_def)
    show ?thesis
      using \<open>doubleClickTimeout (doubleClickState w) = Some h\<close> Some g
        moveListenerGuarded_doStateMouseDownAndUp [OF g', of env]
      by (simp add: mouseDownListener_def settle_def)
  qed
qed

lemma moveListenerGuarded_onMouseUp:
  assumes g: "moveListenerGuarded w"
  shows "moveListenerGuarded (settle (onMouseUp env evt w))"
proof (cases "doubleClickTimeout (doubleClickState w)")
  case None
  then show ?thesis
    using g
    by (cases "element (state w)")
       (auto simp add: onMouseUp_ordinary settle_def moveListenerGuarded_def listenersAfterCleanUp_def)
next
  case (Some h)
  show ?thesis
  proof (cases "mouseUpEvent (doubleClickState w)")
    case None
    then show ?thesis
      using Some g
      by (cases "element (state w)")
         (auto simp add: onMouseUp_def clearTimeout_eq addEventListener_def
            removeEventListener_def settle_def moveListenerGuarded_def Let_def)
  next
    case (Some u)
    then show ?thesis
      using \<open>doubleClickTimeout (doubleClickState w) = Some h\<close> g
      by (cases "element (state w)")
         (auto simp add: onMouseUp_second [where u = u] settle_def moveListenerGuarded_def
            listenersAfterCleanUp_def)
  qed
qed


lemma onMouseDrag_unarmed:
  assumes "doubleClickTimeout (doubleClickState w) = None"
  shows "onMouseDrag env evt w =
     (case getEnabledElement env (element (state w)) of
        None \<Rightarrow> Inr w
      | Some ee \<Rightarrow>
          (case viewport ee of
             None \<Rightarrow> Inr w
           | Some vp \<Rightarrow>
               Inr (w\<lparr> state := (state w)\<lparr>
                          lastPoints := getMouseEventPoints env evt (element (state w)) \<rparr>,
                        effects := effects w @
                          Triggered (element (state w)) MOUSE_DRAG
                            (mouseDragDetail env evt (state w) (state w)) #
                          (if triggerEvent env (element (state w)) MOUSE_DRAG
                               (mouseDragDetail env evt (state w) (state w))
                           then [] else [StopImmediatePropagation evt, PreventDefault evt]),
                        seen := seen w @
                          [\<lparr> seenDoubleClickState = doubleClickState w,
                             seenTimers = timers w \<rparr>] \<rparr>)))"
  using assms
  by (simp add: onMouseDrag_def Let_def trigger_def copyPoints_def andThen_def mouseDragDetail_def
      split: option.splits)

lemma moveListenerGuarded_onMouseDrag:
  assumes g: "moveListenerGuarded w"
  shows "moveListenerGuarded (settle (onMouseDrag env evt w))"
proof (cases "doubleClickTimeout (doubleClickState w)")
  case None
  then show ?thesis
    using g
    by (auto simp add: onMouseDrag_unarmed settle_def moveListenerGuarded_def
        split: option.splits)
next
  case (Some h)
  then have armed: "doubleClickTimeout (doubleClickState w) \<noteq> None"
    by simp
  obtain w1 where w1: "doStateMouseDownAndUp env w = Inr w1"
    using doStateMouseDownAndUp_press [of env w] by blast
  have none: "\<forall>el. (Element el, Mousemove, OnMouseMove) \<notin> listeners w1"
    using doStateMouseDownAndUp_no_move_listener [OF g w1] by blast
  show ?thesis
  proof (cases "getEnabledElement env (element (state w))")
    case None
    then show ?thesis
      using g by (simp add: onMouseDrag_no_viewport settle_def)
  next
    case (Some ee)
    show ?thesis
    proof (cases "viewport ee")
      case None
      then show ?thesis
        using g Some by (simp add: onMouseDrag_no_viewport settle_def)
    next
      case (Some vp)
      show ?thesis
        using g none
        by (simp add: onMouseDrag_armed [OF armed \<open>getEnabledElement env (element (state w)) = Some ee\<close> Some]
              w1 andThen_def settle_def)
           (simp add: moveListenerGuarded_def)
    qed
  qed
qed

lemma moveListenerGuarded_onMouseMove:
  assumes g: "moveListenerGuarded w"
  shows "moveListenerGuarded (settle (onMouseMove env evt w))"
proof -
  obtain w1 where w1: "doStateMouseDownAndUp env w = Inr w1"
    using doStateMouseDownAndUp_press [of env w] by blast
  have none: "\<forall>el. (Element el, Mousemove, OnMouseMove) \<notin> listeners w1"
    using doStateMouseDownAndUp_no_move_listener [OF g w1] by blast
  show ?thesis
    using g none
    by (simp add: onMouseMove_eq w1 andThen_def settle_def) (simp add: moveListenerGuarded_def)
qed

lemma moveListenerGuarded_mouseDoubleClickIgnoreListener:
  "moveListenerGuarded w \<Longrightarrow> moveListenerGuarded (mouseDoubleClickIgnoreListener evt w)"
  using moveListenerGuarded_cleanUp [of w]
  by (simp add: mouseDoubleClickIgnoreListener_def) (simp add: moveListenerGuarded_def)

lemma moveListenerGuarded_fireTimer:
  assumes g: "moveListenerGuarded w"
  shows "moveListenerGuarded (fireTimer env tm w)"
proof (cases "tm \<in> set (timers w)")
  case False
  then show ?thesis
    using g by (simp add: fireTimer_def)
next
  case True
  have g': "moveListenerGuarded
      (w\<lparr> timers := filter (\<lambda>u. handle u \<noteq> handle tm) (timers w),
          now := max (now w) (due tm) \<rparr>)"
    using g by (simp add: moveListenerGuarded_def)
  show ?thesis
  proof (cases "callback tm")
    case DoStateMouseDownAndUp
    then show ?thesis
      using True moveListenerGuarded_doStateMouseDownAndUp [OF g', of env]
      by (simp add: fireTimer_DoStateMouseDownAndUp)
  next
    case PreventClickHandler
    then show ?thesis
      using True g by (simp add: fireTimer_PreventClickHandler moveListenerGuarded_def)
  qed
qed

lemma moveListenerGuarded_fireTimers:
  "moveListenerGuarded w \<Longrightarrow> moveListenerGuarded (foldl (\<lambda>v tm. fireTimer env tm v) w ts)"
  by (induction ts arbitrary: w) (simp_all add: moveListenerGuarded_fireTimer)

lemma moveListenerGuarded_advance:
  "moveListenerGuarded w \<Longrightarrow> moveListenerGuarded (advance env t w)"
  using moveListenerGuarded_fireTimers
          [of w env "sort_key due (filter (\<lambda>tm. due tm \<le> t) (timers w))"]
  by (simp add: advance_def Let_def moveListenerGuarded_def)

lemma moveListenerGuarded_dispatch:
  "moveListenerGuarded w \<Longrightarrow> moveListenerGuarded (dispatch env inp w)"
  by (cases inp)
     (simp_all add: dispatch_def moveListenerGuarded_mouseDownListener
        moveListenerGuarded_onMouseUp moveListenerGuarded_mouseDoubleClickIgnoreListener)

lemma moveListenerGuarded_run:
  "moveListenerGuarded w \<Longrightarrow> moveListenerGuarded (run env ins w)"
  by (induction ins arbitrary: w)
     (auto simp add: moveListenerGuarded_dispatch moveListenerGuarded_advance)

lemma finalizedOnce_value: "doStateMouseDownAndUp demoEnv pressedEngine = Inr finalizedOnce"
  by (simp add: finalizedOnce_def pressedEngine_value doStateMouseDownAndUp_no_up settle_def)

subsection \<open>Points\<close>

text \<open>
  C9. The difference of two point records is defined whatever is passed: when the current
  points or the last points are \<^verbatim>\<open>null\<close> or \<^verbatim>\<open>undefined\<close> the result is the zero delta in the
  four spaces, and otherwise it is current minus last, coordinate by coordinate, in each
  of the four spaces.
\<close>

theorem getDeltaPoints_total:
  "(falsy cur \<or> falsy lst \<longrightarrow>
      getDeltaPoints cur lst = \<lparr> page = (0, 0), client = (0, 0), canvas = (0, 0), world = (0, 0, 0) \<rparr>)
   \<and> (\<forall>c l. cur = Obj c \<and> lst = Obj l \<longrightarrow>
      page (getDeltaPoints cur lst) = (fst (page c) - fst (page l), snd (page c) - snd (page l))
    \<and> client (getDeltaPoints cur lst) = (fst (client c) - fst (client l), snd (client c) - snd (client l))
    \<and> canvas (getDeltaPoints cur lst) = (fst (canvas c) - fst (canvas l), snd (canvas c) - snd (canvas l))
    \<and> world (getDeltaPoints cur lst) =
        (fst (world c) - fst (world l),
         fst (snd (world c)) - fst (snd (world l)),
         snd (snd (world c)) - snd (snd (world l))))"
  by (cases cur; cases lst) (simp_all add: subtractPoints2D_def subtractPoints3D_def)

theorem getDeltaPoints_total_witness:
  "getDeltaPoints Undefined (Obj \<lparr> page = (1, 2), client = (3, 4), canvas = (5, 6), world = (7, 8, 9) \<rparr>)
     = \<lparr> page = (0, 0), client = (0, 0), canvas = (0, 0), world = (0, 0, 0) \<rparr>
   \<and> world (getDeltaPoints
        (Obj \<lparr> page = (1, 2), client = (3, 4), canvas = (5, 6), world = (7, 8, 9) \<rparr>)
        (Obj \<lparr> page = (1, 1), client = (1, 1), canvas = (1, 1), world = (1, 1, 1) \<rparr>)) = (6, 7, 8)"
  using getDeltaPoints_total
          [of Undefined "Obj \<lparr> page = (1, 2), client = (3, 4), canvas = (5, 6), world = (7, 8, 9) \<rparr>"]
        getDeltaPoints_total
          [of "Obj \<lparr> page = (1, 2), client = (3, 4), canvas = (5, 6), world = (7, 8, 9) \<rparr>"
              "Obj \<lparr> page = (1, 1), client = (1, 1), canvas = (1, 1), world = (1, 1, 1) \<rparr>"]
  by simp

text \<open>
  C10. Recomputing the last points keeps their page, client and canvas projections and
  recomputes the world projection alone, from the canvas point through the viewport's
  \<^verbatim>\<open>canvasToWorld\<close>; for an element that is not enabled or has no viewport the record comes
  back as it was.
\<close>

theorem updateMouseEventsLastPoints_frame:
  "page (updateMouseEventsLastPoints env el p) = page p
   \<and> client (updateMouseEventsLastPoints env el p) = client p
   \<and> canvas (updateMouseEventsLastPoints env el p) = canvas p
   \<and> (\<forall>ee vp. getEnabledElement env el = Some ee \<and> viewport ee = Some vp \<longrightarrow>
         world (updateMouseEventsLastPoints env el p) = canvasToWorld vp (canvas p))
   \<and> (getEnabledElement env el = None
        \<or> (\<exists>ee. getEnabledElement env el = Some ee \<and> viewport ee = None) \<longrightarrow>
         updateMouseEventsLastPoints env el p = p)"
  by (auto simp: updateMouseEventsLastPoints_def split: option.splits)

theorem updateMouseEventsLastPoints_frame_witness:
  "world (updateMouseEventsLastPoints demoEnv (Some 7)
            \<lparr> page = (1, 2), client = (3, 4), canvas = (5, 6), world = (7, 8, 9) \<rparr>) = (5, 6, 0)
   \<and> updateMouseEventsLastPoints demoEnv (Some 8)
            \<lparr> page = (1, 2), client = (3, 4), canvas = (5, 6), world = (7, 8, 9) \<rparr>
        = \<lparr> page = (1, 2), client = (3, 4), canvas = (5, 6), world = (7, 8, 9) \<rparr>"
  using updateMouseEventsLastPoints_frame
          [of demoEnv "Some 7" "\<lparr> page = (1, 2), client = (3, 4), canvas = (5, 6), world = (7, 8, 9) \<rparr>"]
        updateMouseEventsLastPoints_frame
          [of demoEnv "Some 8" "\<lparr> page = (1, 2), client = (3, 4), canvas = (5, 6), world = (7, 8, 9) \<rparr>"]
  by (simp add: demoEnv_def)

subsection \<open>Mouse down\<close>

text \<open>
  C8. A mouse down that arrives while the double click timeout is pending and has the
  same \<^verbatim>\<open>buttons\<close> as the buffered mouse down is ignored: the listener returns the engine
  it was given, so nothing is triggered and neither \<^verbatim>\<open>state\<close> nor \<^verbatim>\<open>doubleClickState\<close>,
  nor any timer or listener, has changed.
\<close>

theorem mouseDownListener_same_buttons_ignored:
  "doubleClickTimeout (doubleClickState w) \<noteq> None \<Longrightarrow>
   mouseDownEvent (doubleClickState w) = Some first \<Longrightarrow>
   buttons evt = buttons first \<Longrightarrow>
   mouseDownListener env evt w = Inr w"
  by (simp add: mouseDownListener_def)

theorem mouseDownListener_same_buttons_ignored_witness:
  "mouseDownListener demoEnv (mouseAt 1 12 9) pressedEngine = Inr pressedEngine"
  using mouseDownListener_same_buttons_ignored
          [of pressedEngine "mouseAt 1 10 10" "mouseAt 1 12 9" demoEnv]
  by (simp add: pressedEngine_value mouseAt_def)

text \<open>
  C6. A mouse down that finds no timeout pending starts the one decision timer of the
  gesture: its handle is stored in \<^verbatim>\<open>doubleClickTimeout\<close>, it calls
  \<^verbatim>\<open>_doStateMouseDownAndUp\<close>, and it is due 400 ms from now when \<^verbatim>\<open>buttons\<close> is exactly 1, the
  primary button alone, and 150 ms from now for every other value. This holds also
  when the listener throws further down, on an element that is not enabled.
\<close>

theorem mouseDownListener_timeout_duration:
  "doubleClickTimeout (doubleClickState w) = None \<Longrightarrow>
   doubleClickTimeout (doubleClickState (settle (mouseDownListener env evt w))) = Some (lastHandle w + 1)
   \<and> filter (\<lambda>u. callback u = DoStateMouseDownAndUp) (timers (settle (mouseDownListener env evt w))) =
       filter (\<lambda>u. callback u = DoStateMouseDownAndUp) (timers w) @
         [\<lparr> handle = lastHandle w + 1,
            due = now w + (if buttons evt = 1 then 400 else 150),
            callback = DoStateMouseDownAndUp \<rparr>]"
  by (cases "getEnabledElement env (Some (currentTarget evt))")
     (simp_all add: mouseDownListener_def host_defs Let_def)

theorem mouseDownListener_timeout_duration_witness:
  "filter (\<lambda>u. callback u = DoStateMouseDownAndUp)
        (timers (settle (mouseDownListener demoEnv (mouseAt 1 10 10) initialEngine))) =
     [\<lparr> handle = 1, due = 400, callback = DoStateMouseDownAndUp \<rparr>]
   \<and> filter (\<lambda>u. callback u = DoStateMouseDownAndUp)
        (timers (settle (mouseDownListener demoEnv (mouseAt 2 10 10) initialEngine))) =
     [\<lparr> handle = 1, due = 150, callback = DoStateMouseDownAndUp \<rparr>]"
proof -
  have fresh: "doubleClickTimeout (doubleClickState initialEngine) = None"
    by (simp add: initialEngine_def)
  from mouseDownListener_timeout_duration [OF fresh, of demoEnv "mouseAt 1 10 10"]
       mouseDownListener_timeout_duration [OF fresh, of demoEnv "mouseAt 2 10 10"]
  show ?thesis by (simp add: initialEngine_def mouseAt_def)
qed

text \<open>
  C1, as the code has it. A mouse down that arrives while the timeout is pending with
  other \<^verbatim>\<open>buttons\<close> than the buffered mouse down takes the place of the buffered one and
  the decision is finalised at once: \<^verbatim>\<open>MOUSE_DOWN\<close> is triggered with the new DOM event as
  its \<^verbatim>\<open>event\<close> and with the element, the button mask, the two ids and the start points
  recorded at the first mouse down, then \<^verbatim>\<open>MOUSE_DOWN_ACTIVATE\<close> with the same detail if the
  first was not consumed, then the buffered mouse up if there is one. The listener returns
  with the double click state cleared and the flag set, the decision timer cancelled and
  no timer started, and nothing of the new mouse down recorded in \<^verbatim>\<open>state\<close>.
\<close>

theorem mouseDownListener_other_buttons_finalizes:
  assumes "doubleClickTimeout (doubleClickState w) \<noteq> None"
    and "mouseDownEvent (doubleClickState w) = Some first"
    and "buttons evt \<noteq> buttons first"
  shows "\<exists>w' d rest.
      mouseDownListener env evt w = Inr w'
    \<and> effects w' = effects w @ Triggered (element (state w)) MOUSE_DOWN d # rest
    \<and> d = \<lparr> event = Some evt,
            eventName = MOUSE_DOWN,
            evElement = element (state w),
            evMouseButton = mouseButton (state w),
            evRenderingEngineId = renderingEngineId (state w),
            evViewportId = viewportId (state w),
            evStartPoints = startPoints (state w),
            evLastPoints = startPoints (state w),
            currentPoints = startPoints (state w),
            deltaPoints = \<lparr> page = (0, 0), client = (0, 0), canvas = (0, 0), world = (0, 0, 0) \<rparr> \<rparr>
    \<and> rest =
        (if triggerEvent env (element (state w)) MOUSE_DOWN d
         then [Triggered (element (state w)) MOUSE_DOWN_ACTIVATE d] else []) @
        (case mouseUpEvent (doubleClickState w) of
           None \<Rightarrow> []
         | Some u \<Rightarrow>
             [Triggered (element (state w)) (if isClickEvent (state w) then MOUSE_CLICK else MOUSE_UP)
                \<lparr> event = Some u,
                  eventName = (if isClickEvent (state w) then MOUSE_CLICK else MOUSE_UP),
                  evElement = element (state w),
                  evMouseButton = mouseButton (state w),
                  evRenderingEngineId = renderingEngineId (state w),
                  evViewportId = viewportId (state w),
                  evStartPoints = startPoints (state w),
                  evLastPoints = startPoints (state w),
                  currentPoints = getMouseEventPoints env u (element (state w)),
                  deltaPoints = getDeltaPoints (Obj (getMouseEventPoints env u (element (state w))))
                                  (Obj (startPoints (state w))) \<rparr>])
    \<and> doubleClickState w' =
        \<lparr> doubleClickTimeout = None, mouseDownEvent = None, mouseUpEvent = None,
          ignoreDoubleClick = True \<rparr>
    \<and> set (timers w') \<subseteq> set (timers w)
    \<and> (\<forall>t \<in> set (timers w'). Some (handle t) \<noteq> doubleClickTimeout (doubleClickState w))
    \<and> lastHandle w' = lastHandle w
    \<and> state w' =
        (case mouseUpEvent (doubleClickState w) of
           None \<Rightarrow> (state w)\<lparr> lastPoints := startPoints (state w) \<rparr>
         | Some u \<Rightarrow> defaultState)
    \<and> listeners w' =
        (case mouseUpEvent (doubleClickState w) of
           None \<Rightarrow> listeners w
         | Some u \<Rightarrow>
             (case element (state w) of
                None \<Rightarrow> listeners w - {(Document, Mouseup, OnMouseUp)}
                          - {(Document, Mousemove, OnMouseDrag)}
              | Some el \<Rightarrow>
                  insert (Element el, Mousemove, MouseMoveListener)
                    (listeners w - {(Document, Mouseup, OnMouseUp)}
                       - {(Element el, Mousemove, OnMouseMove)})
                    - {(Document, Mousemove, OnMouseDrag)}))"
proof (cases "mouseUpEvent (doubleClickState w)")
  case None
  then show ?thesis
    using assms
    by (auto simp add: mouseDownListener_def doStateMouseDownAndUp_no_up mouseDownDetail_def)
next
  case (Some u)
  then show ?thesis
    using assms
    by (cases "element (state w)")
       (auto simp add: mouseDownListener_def doStateMouseDownAndUp_up mouseDownDetail_def
          mouseUpDetail_def listenersAfterCleanUp_def)
qed

theorem mouseDownListener_other_buttons_finalizes_witness:
  "\<exists>w' d rest.
      mouseDownListener demoEnv (mouseAt 3 10 10) pressedEngine = Inr w'
    \<and> effects w' = effects pressedEngine @ Triggered (element (state pressedEngine)) MOUSE_DOWN d # rest
    \<and> d = \<lparr> event = Some (mouseAt 3 10 10),
            eventName = MOUSE_DOWN,
            evElement = element (state pressedEngine),
            evMouseButton = mouseButton (state pressedEngine),
            evRenderingEngineId = renderingEngineId (state pressedEngine),
            evViewportId = viewportId (state pressedEngine),
            evStartPoints = startPoints (state pressedEngine),
            evLastPoints = startPoints (state pressedEngine),
            currentPoints = startPoints (state pressedEngine),
            deltaPoints = \<lparr> page = (0, 0), client = (0, 0), canvas = (0, 0), world = (0, 0, 0) \<rparr> \<rparr>
    \<and> doubleClickState w' =
        \<lparr> doubleClickTimeout = None, mouseDownEvent = None, mouseUpEvent = None,
          ignoreDoubleClick = True \<rparr>
    \<and> lastHandle w' = lastHandle pressedEngine"
proof -
  have armed: "doubleClickTimeout (doubleClickState pressedEngine) \<noteq> None"
    by (simp add: pressedEngine_value)
  have buffered: "mouseDownEvent (doubleClickState pressedEngine) = Some (mouseAt 1 10 10)"
    by (simp add: pressedEngine_value)
  have other: "buttons (mouseAt 3 10 10) \<noteq> buttons (mouseAt 1 10 10)"
    by (simp add: mouseAt_def)
  from mouseDownListener_other_buttons_finalizes [OF armed buffered other, of demoEnv]
  show ?thesis by blast
qed

text \<open>
  C1 as it stands fails: after a mouse down of the primary button and a second
  one with \<^verbatim>\<open>buttons = 3\<close>, both triggered events carry the second DOM event, not the
  buffered first one.
\<close>

theorem first_press_replayed_counterexample:
  "triggeredSources (effects chordEngine) = [Some (mouseAt 3 10 10), Some (mouseAt 3 10 10)]
   \<and> mouseAt 3 10 10 \<noteq> mouseAt 1 10 10
   \<and> mouseDownEvent (doubleClickState pressedEngine) = Some (mouseAt 1 10 10)"
  by (simp add: chordEngine_def pressedEngine_value mouseDownListener_def
        doStateMouseDownAndUp_no_up mouseDownDetail_def settle_def mouseAt_def demoEnv_def)

subsection \<open>Movement while the timeout is pending\<close>

text \<open>
  C5, as the code has it. While the timeout is pending, with the distance between the
  canvas point of the move and the last canvas point measured as the sum of the absolute
  differences: on an element with a viewport, a move further than 3 makes \<^verbatim>\<open>_onMouseDrag\<close>
  finalise the decision (the held-back \<^verbatim>\<open>MOUSE_DOWN\<close> is triggered) and then trigger
  \<^verbatim>\<open>MOUSE_DRAG\<close> for this same DOM event, and a move of 3 or less changes nothing; on an
  element that is not enabled or has no viewport \<^verbatim>\<open>_onMouseDrag\<close> returns at once whatever
  the distance. \<^verbatim>\<open>_onMouseMove\<close>, which listens after the first mouse up, finalises and then
  hands the DOM event to \<^verbatim>\<open>mouseMoveListener\<close> for a move further than 3, and changes
  nothing for a move of 3 or less.
\<close>

theorem move_while_timeout_pending:
  assumes armed: "doubleClickTimeout (doubleClickState w) \<noteq> None"
    and dst: "dst = l1Distance (canvas (getMouseEventPoints env evt (element (state w))))
                      (canvas (lastPoints (state w)))"
  shows "(getEnabledElement env (element (state w)) = Some ee \<and> viewport ee = Some vp \<longrightarrow> 3 < dst \<longrightarrow>
            (\<exists>w1 rest w' d.
                doStateMouseDownAndUp env w = Inr w1
              \<and> effects w1 = effects w @
                  Triggered (element (state w)) MOUSE_DOWN
                    (mouseDownDetail (mouseDownEvent (doubleClickState w)) (state w)) # rest
              \<and> onMouseDrag env evt w = Inr w'
              \<and> effects w' = effects w1 @ Triggered (element (state w1)) MOUSE_DRAG d #
                  (if triggerEvent env (element (state w1)) MOUSE_DRAG d then []
                   else [StopImmediatePropagation evt, PreventDefault evt])
              \<and> event d = Some evt
              \<and> currentPoints d = getMouseEventPoints env evt (element (state w))
              \<and> doubleClickState w' =
                  \<lparr> doubleClickTimeout = None, mouseDownEvent = None, mouseUpEvent = None,
                    ignoreDoubleClick = True \<rparr>))
       \<and> (getEnabledElement env (element (state w)) = Some ee \<and> viewport ee = Some vp \<longrightarrow> dst \<le> 3 \<longrightarrow>
            onMouseDrag env evt w = Inr w)
       \<and> (getEnabledElement env (element (state w)) = None
            \<or> (\<exists>e. getEnabledElement env (element (state w)) = Some e \<and> viewport e = None) \<longrightarrow>
            onMouseDrag env evt w = Inr w)
       \<and> (3 < dst \<longrightarrow>
            (\<exists>w1 rest w'.
                doStateMouseDownAndUp env w = Inr w1
              \<and> effects w1 = effects w @
                  Triggered (element (state w)) MOUSE_DOWN
                    (mouseDownDetail (mouseDownEvent (doubleClickState w)) (state w)) # rest
              \<and> onMouseMove env evt w = Inr w'
              \<and> effects w' = effects w1 @ [MouseMoveListenerCalled evt]
              \<and> doubleClickState w' =
                  \<lparr> doubleClickTimeout = None, mouseDownEvent = None, mouseUpEvent = None,
                    ignoreDoubleClick = True \<rparr>))
       \<and> (dst \<le> 3 \<longrightarrow> onMouseMove env evt w = Inr w)"
proof -
  obtain w1 rest where fin: "doStateMouseDownAndUp env w = Inr w1"
    and press: "effects w1 = effects w @
        Triggered (element (state w)) MOUSE_DOWN
          (mouseDownDetail (mouseDownEvent (doubleClickState w)) (state w)) # rest"
    and cleared: "doubleClickState w1 =
        \<lparr> doubleClickTimeout = None, mouseDownEvent = None, mouseUpEvent = None,
          ignoreDoubleClick = True \<rparr>"
    using doStateMouseDownAndUp_press [of env w] by blast
  have drag_far: "\<exists>w1 rest w' d.
                doStateMouseDownAndUp env w = Inr w1
              \<and> effects w1 = effects w @
                  Triggered (element (state w)) MOUSE_DOWN
                    (mouseDownDetail (mouseDownEvent (doubleClickState w)) (state w)) # rest
              \<and> onMouseDrag env evt w = Inr w'
              \<and> effects w' = effects w1 @ Triggered (element (state w1)) MOUSE_DRAG d #
                  (if triggerEvent env (element (state w1)) MOUSE_DRAG d then []
                   else [StopImmediatePropagation evt, PreventDefault evt])
              \<and> event d = Some evt
              \<and> currentPoints d = getMouseEventPoints env evt (element (state w))
              \<and> doubleClickState w' =
                  \<lparr> doubleClickTimeout = None, mouseDownEvent = None, mouseUpEvent = None,
                    ignoreDoubleClick = True \<rparr>"
    if en: "getEnabledElement env (element (state w)) = Some ee" and vp: "viewport ee = Some vp"
      and far: "3 < dst"
  proof -
    have "onMouseDrag env evt w =
        Inr (w1\<lparr> state := (state w1)\<lparr>
                   lastPoints := getMouseEventPoints env evt (element (state w)) \<rparr>,
                 effects := effects w1 @
                   Triggered (element (state w1)) MOUSE_DRAG
                     (mouseDragDetail env evt (state w) (state w1)) #
                   (if triggerEvent env (element (state w1)) MOUSE_DRAG
                        (mouseDragDetail env evt (state w) (state w1))
                    then [] else [StopImmediatePropagation evt, PreventDefault evt]),
                 seen := seen w1 @
                   [\<lparr> seenDoubleClickState = doubleClickState w1, seenTimers = timers w1 \<rparr>] \<rparr>)"
      using far dst by (simp add: onMouseDrag_armed [OF armed en vp] fin andThen_def)
    with fin press cleared show ?thesis
      by (simp add: mouseDragDetail_def)
  qed
  have drag_near: "onMouseDrag env evt w = Inr w"
    if en: "getEnabledElement env (element (state w)) = Some ee" and vp: "viewport ee = Some vp"
      and near: "dst \<le> 3"
    using near dst by (simp add: onMouseDrag_armed [OF armed en vp])
  have move_far: "\<exists>w1 rest w'.
                doStateMouseDownAndUp env w = Inr w1
              \<and> effects w1 = effects w @
                  Triggered (element (state w)) MOUSE_DOWN
                    (mouseDownDetail (mouseDownEvent (doubleClickState w)) (state w)) # rest
              \<and> onMouseMove env evt w = Inr w'
              \<and> effects w' = effects w1 @ [MouseMoveListenerCalled evt]
              \<and> doubleClickState w' =
                  \<lparr> doubleClickTimeout = None, mouseDownEvent = None, mouseUpEvent = None,
                    ignoreDoubleClick = True \<rparr>"
    if far: "3 < dst"
    using fin press cleared dst far by (simp add: onMouseMove_eq andThen_def)
  have move_near: "onMouseMove env evt w = Inr w" if near: "dst \<le> 3"
    using dst near by (simp add: onMouseMove_eq)
  from drag_far drag_near move_far move_near show ?thesis
    using onMouseDrag_no_viewport [of env w evt] by blast
qed

theorem move_while_timeout_pending_witness:
  "(\<exists>w1 rest w' d.
      doStateMouseDownAndUp demoEnv pressedEngine = Inr w1
    \<and> effects w1 = effects pressedEngine @
        Triggered (element (state pressedEngine)) MOUSE_DOWN
          (mouseDownDetail (mouseDownEvent (doubleClickState pressedEngine)) (state pressedEngine)) # rest
    \<and> onMouseDrag demoEnv (mouseAt 1 12 12) pressedEngine = Inr w'
    \<and> effects w' = effects w1 @ Triggered (element (state w1)) MOUSE_DRAG d #
        (if triggerEvent demoEnv (element (state w1)) MOUSE_DRAG d then []
         else [StopImmediatePropagation (mouseAt 1 12 12), PreventDefault (mouseAt 1 12 12)])
    \<and> event d = Some (mouseAt 1 12 12)
    \<and> currentPoints d = getMouseEventPoints demoEnv (mouseAt 1 12 12) (element (state pressedEngine))
    \<and> doubleClickState w' =
        \<lparr> doubleClickTimeout = None, mouseDownEvent = None, mouseUpEvent = None,
          ignoreDoubleClick = True \<rparr>)
   \<and> onMouseMove demoEnv (mouseAt 1 11 12) pressedEngine = Inr pressedEngine"
proof -
  have armed: "doubleClickTimeout (doubleClickState pressedEngine) \<noteq> None"
    by (simp add: pressedEngine_value)
  have far: "(4::real) = l1Distance
      (canvas (getMouseEventPoints demoEnv (mouseAt 1 12 12) (element (state pressedEngine))))
      (canvas (lastPoints (state pressedEngine)))"
    by (simp add: pressedEngine_value l1Distance_def demoEnv_def mouseAt_def)
  have near: "(3::real) = l1Distance
      (canvas (getMouseEventPoints demoEnv (mouseAt 1 11 12) (element (state pressedEngine))))
      (canvas (lastPoints (state pressedEngine)))"
    by (simp add: pressedEngine_value l1Distance_def demoEnv_def mouseAt_def)
  have enabled: "getEnabledElement demoEnv (element (state pressedEngine)) =
      Some \<lparr> eeRenderingEngineId = ''engine'', eeViewportId = ''viewport'',
             viewport = Some \<lparr> canvasToWorld = (\<lambda>p. (fst p, snd p, 0)) \<rparr> \<rparr>
    \<and> viewport \<lparr> eeRenderingEngineId = ''engine'', eeViewportId = ''viewport'',
             viewport = Some \<lparr> canvasToWorld = (\<lambda>p. (fst p, snd p, 0)) \<rparr> \<rparr>
        = Some \<lparr> canvasToWorld = (\<lambda>p. (fst p, snd p, 0)) \<rparr>"
    by (simp add: pressedEngine_value demoEnv_def)
  have lt: "(3::real) < 4" and le: "(3::real) \<le> 3"
    by simp_all
  note far_case = move_while_timeout_pending [OF armed far, THEN conjunct1, rule_format, OF enabled lt]
  note near_case = move_while_timeout_pending [OF armed near, THEN conjunct2, THEN conjunct2,
     THEN conjunct2, THEN conjunct2, rule_format, OF le]
  from far_case near_case show ?thesis by (rule conjI)
qed

text \<open>
  C5 as it stands fails: the element was disabled after the mouse down, the move
  is 10 away from the last point, and \<^verbatim>\<open>_onMouseDrag\<close> leaves the decision pending and
  triggers nothing.
\<close>

theorem drag_on_disabled_element_counterexample:
  "doubleClickTimeout (doubleClickState pressedEngine) = Some 1
   \<and> l1Distance
        (canvas (getMouseEventPoints disabledEnv (mouseAt 1 20 10) (element (state pressedEngine))))
        (canvas (lastPoints (state pressedEngine))) = 10
   \<and> onMouseDrag disabledEnv (mouseAt 1 20 10) pressedEngine = Inr pressedEngine"
  by (simp add: pressedEngine_value l1Distance_def disabledEnv_def demoEnv_def mouseAt_def
        onMouseDrag_def)

subsection \<open>Finalising\<close>

text \<open>
  C3. Finalising is idempotent: once \<^verbatim>\<open>_doStateMouseDownAndUp\<close> has run on a pending decision,
  a second attempt with no mouse down in between finds the pending state cleared and is a
  no-op. The function is reached from the decision timer, from the drag listener, from the
  move listener and from a mouse down with other buttons. After the first run the double
  click state is cleared with the flag set, and
  \<^item> no timer with the handle of the decision timer is pending, so its expiry triggers
    nothing and leaves the whole engine as it is;
  \<^item> \<^verbatim>\<open>_onMouseMove\<close> is registered on no element;
  \<^item> \<^verbatim>\<open>_onMouseDrag\<close> finds no timeout and does not finalise: whatever it appends to the
    calls made holds neither \<^verbatim>\<open>MOUSE_DOWN\<close> nor \<^verbatim>\<open>MOUSE_DOWN_ACTIVATE\<close>, and the double click
    state stays cleared.
  The witness ends with the run of the specification's example, a drag that finalises
  followed by the time at which the timer would have fired: one \<^verbatim>\<open>MOUSE_DOWN\<close>, one
  \<^verbatim>\<open>MOUSE_DOWN_ACTIVATE\<close>, then the drag.
\<close>

theorem finalize_second_invocation_is_noop:
  assumes armed: "doubleClickTimeout (doubleClickState w) = Some h"
    and tm: "handle tm = h"
    and guarded: "moveListenerGuarded w"
    and first: "doStateMouseDownAndUp env w = Inr w1"
  shows "doubleClickState w1 =
           \<lparr> doubleClickTimeout = None, mouseDownEvent = None, mouseUpEvent = None,
             ignoreDoubleClick = True \<rparr>
       \<and> (\<forall>t \<in> set (timers w1). handle t \<noteq> h)
       \<and> fireTimer env tm w1 = w1
       \<and> (\<forall>el. (Element el, Mousemove, OnMouseMove) \<notin> listeners w1)
       \<and> (\<exists>w2 added.
            onMouseDrag env evt w1 = Inr w2
          \<and> effects w2 = effects w1 @ added
          \<and> MOUSE_DOWN \<notin> set (triggeredNames added)
          \<and> MOUSE_DOWN_ACTIVATE \<notin> set (triggeredNames added)
          \<and> doubleClickState w2 = doubleClickState w1)"
proof -
  have cleared: "doubleClickState w1 =
           \<lparr> doubleClickTimeout = None, mouseDownEvent = None, mouseUpEvent = None,
             ignoreDoubleClick = True \<rparr>"
    using doStateMouseDownAndUp_press [of env w] first by auto
  have cancelled: "\<forall>t \<in> set (timers w1). handle t \<noteq> h"
    using armed first
    by (cases "mouseUpEvent (doubleClickState w)")
       (auto simp add: doStateMouseDownAndUp_no_up doStateMouseDownAndUp_up)
  have expiry: "fireTimer env tm w1 = w1"
    using cancelled tm by (auto simp add: fireTimer_def)
  have unregistered: "\<forall>el. (Element el, Mousemove, OnMouseMove) \<notin> listeners w1"
    using doStateMouseDownAndUp_no_move_listener [OF guarded first] by blast
  have unarmed: "doubleClickTimeout (doubleClickState w1) = None"
    using cleared by simp
  have drag: "\<exists>w2 added.
            onMouseDrag env evt w1 = Inr w2
          \<and> effects w2 = effects w1 @ added
          \<and> MOUSE_DOWN \<notin> set (triggeredNames added)
          \<and> MOUSE_DOWN_ACTIVATE \<notin> set (triggeredNames added)
          \<and> doubleClickState w2 = doubleClickState w1"
  proof (cases "getEnabledElement env (element (state w1))")
    case None
    then show ?thesis
      by (simp add: onMouseDrag_unarmed [OF unarmed])
  next
    case (Some ee)
    then show ?thesis
      by (cases "viewport ee") (simp_all add: onMouseDrag_unarmed [OF unarmed])
  qed
  from cleared cancelled expiry unregistered drag show ?thesis
    by blast
qed

theorem finalize_second_invocation_is_noop_witness:
  "doubleClickState finalizedOnce =
           \<lparr> doubleClickTimeout = None, mouseDownEvent = None, mouseUpEvent = None,
             ignoreDoubleClick = True \<rparr>
   \<and> fireTimer demoEnv \<lparr> handle = 1, due = 400, callback = DoStateMouseDownAndUp \<rparr> finalizedOnce
       = finalizedOnce
   \<and> (\<forall>el. (Element el, Mousemove, OnMouseMove) \<notin> listeners finalizedOnce)
   \<and> triggeredNames (effects draggedThenExpired) = [MOUSE_DOWN, MOUSE_DOWN_ACTIVATE, MOUSE_DRAG]"
proof -
  have armed: "doubleClickTimeout (doubleClickState pressedEngine) = Some 1"
    by (simp add: pressedEngine_value)
  have h: "handle \<lparr> handle = 1, due = 400, callback = DoStateMouseDownAndUp \<rparr> = 1"
    by simp
  have guarded: "moveListenerGuarded pressedEngine"
    by (simp add: moveListenerGuarded_def pressedEngine_value)
  have scenario:
    "triggeredNames (effects draggedThenExpired) = [MOUSE_DOWN, MOUSE_DOWN_ACTIVATE, MOUSE_DRAG]"
    by (simp add: draggedThenExpired_def pressedEngine_value onMouseDrag_def
          updateMouseEventsLastPoints_def isDragPastDoubleClickTolerance_def subtractPoints2D_def
          subtractPoints3D_def doStateMouseDownAndUp_no_up loop_defs host_defs
          preventClickHandler_def demoEnv_def mouseAt_def Let_def)
  from finalize_second_invocation_is_noop [OF armed h guarded finalizedOnce_value]
  have "doubleClickState finalizedOnce =
           \<lparr> doubleClickTimeout = None, mouseDownEvent = None, mouseUpEvent = None,
             ignoreDoubleClick = True \<rparr>
   \<and> fireTimer demoEnv \<lparr> handle = 1, due = 400, callback = DoStateMouseDownAndUp \<rparr> finalizedOnce
       = finalizedOnce
   \<and> (\<forall>el. (Element el, Mousemove, OnMouseMove) \<notin> listeners finalizedOnce)"
    by blast
  with scenario show ?thesis by blast
qed

subsection \<open>Mouse up\<close>

text \<open>
  C7. A mouse up that finds no timeout pending triggers exactly one event, \<^verbatim>\<open>MOUSE_CLICK\<close>
  if \<^verbatim>\<open>isClickEvent\<close> still holds and \<^verbatim>\<open>MOUSE_UP\<close> otherwise. And whenever a button pressed on
  an idle engine is held for more than the click delay of 200 ms, the one event that its
  release ends in, once the decision timer has run out, is \<^verbatim>\<open>MOUSE_UP\<close> and no
  \<^verbatim>\<open>MOUSE_CLICK\<close> is triggered: after the \<^verbatim>\<open>MOUSE_DOWN\<close> and at most a \<^verbatim>\<open>MOUSE_DOWN_ACTIVATE\<close>
  comes \<^verbatim>\<open>MOUSE_UP\<close>. The witness is the mouse down at 0 released at 250.
\<close>

theorem ordinary_release_click_or_up:
  "(doubleClickTimeout (doubleClickState w) = None \<longrightarrow>
      (\<exists>w' d. onMouseUp env evt w = Inr w'
         \<and> effects w' = effects w @
             [Triggered (element (state w)) (if isClickEvent (state w) then MOUSE_CLICK else MOUSE_UP) d]
         \<and> event d = Some evt
         \<and> eventName d = (if isClickEvent (state w) then MOUSE_CLICK else MOUSE_UP)))
   \<and> (idle w0 \<and> now w0 \<le> t0
        \<and> getEnabledElement env (Some (currentTarget e)) = Some ee
        \<and> t0 + 200 < t1 \<and> t1 \<le> T \<and> t0 + (if buttons e = 1 then 400 else 150) \<le> T \<longrightarrow>
      (\<exists>acts. set acts \<subseteq> {MOUSE_DOWN_ACTIVATE}
         \<and> triggeredNames (effects (advance env T (run env [(t0, Down e), (t1, Up u)] w0))) =
             triggeredNames (effects w0) @ MOUSE_DOWN # acts @ [MOUSE_UP]))"
proof (intro conjI impI)
  assume "doubleClickTimeout (doubleClickState w) = None"
  then show "\<exists>w' d. onMouseUp env evt w = Inr w'
         \<and> effects w' = effects w @
             [Triggered (element (state w)) (if isClickEvent (state w) then MOUSE_CLICK else MOUSE_UP) d]
         \<and> event d = Some evt
         \<and> eventName d = (if isClickEvent (state w) then MOUSE_CLICK else MOUSE_UP)"
    by (simp add: onMouseUp_ordinary mouseUpDetail_def)
next
  assume "idle w0 \<and> now w0 \<le> t0
        \<and> getEnabledElement env (Some (currentTarget e)) = Some ee
        \<and> t0 + 200 < t1 \<and> t1 \<le> T \<and> t0 + (if buttons e = 1 then 400 else 150) \<le> T"
  then show "\<exists>acts. set acts \<subseteq> {MOUSE_DOWN_ACTIVATE}
         \<and> triggeredNames (effects (advance env T (run env [(t0, Down e), (t1, Up u)] w0))) =
             triggeredNames (effects w0) @ MOUSE_DOWN # acts @ [MOUSE_UP]"
    using held_past_delay_release_is_up [of w0 t0 env e ee t1 T u] by blast
qed

theorem ordinary_release_click_or_up_witness:
  "(\<exists>acts. set acts \<subseteq> {MOUSE_DOWN_ACTIVATE}
     \<and> triggeredNames (effects (advance demoEnv 400
          (run demoEnv [(0, Down (mouseAt 1 10 10)), (250, Up (mouseAt 0 10 10))] initialEngine))) =
        triggeredNames (effects initialEngine) @ MOUSE_DOWN # acts @ [MOUSE_UP])
   \<and> (\<exists>w' d. onMouseUp demoEnv (mouseAt 0 10 10) chordEngine = Inr w'
         \<and> effects w' = effects chordEngine @
             [Triggered (element (state chordEngine))
                (if isClickEvent (state chordEngine) then MOUSE_CLICK else MOUSE_UP) d]
         \<and> event d = Some (mouseAt 0 10 10)
         \<and> eventName d = (if isClickEvent (state chordEngine) then MOUSE_CLICK else MOUSE_UP))"
proof -
  have scenario: "idle initialEngine \<and> now initialEngine \<le> 0
        \<and> getEnabledElement demoEnv (Some (currentTarget (mouseAt 1 10 10))) =
            Some \<lparr> eeRenderingEngineId = ''engine'', eeViewportId = ''viewport'',
                   viewport = Some \<lparr> canvasToWorld = (\<lambda>p. (fst p, snd p, 0)) \<rparr> \<rparr>
        \<and> (0::nat) + 200 < 250 \<and> (250::nat) \<le> 400
        \<and> (0::nat) + (if buttons (mouseAt 1 10 10) = 1 then 400 else 150) \<le> 400"
    by (simp add: idle_initialEngine) (simp add: initialEngine_def demoEnv_def mouseAt_def)
  have unarmed: "doubleClickTimeout (doubleClickState chordEngine) = None"
    by (simp add: chordEngine_def pressedEngine_value mouseDownListener_def
          doStateMouseDownAndUp_no_up settle_def mouseAt_def)
  note timed = ordinary_release_click_or_up [THEN conjunct2, rule_format, OF scenario]
  note plain = ordinary_release_click_or_up [THEN conjunct1, rule_format, OF unarmed]
  from timed plain show ?thesis by (rule conjI)
qed

subsection \<open>Double click\<close>




subsection \<open>The decision timer running out\<close>

text \<open>
  C4, as the code has it. The primary button goes down at 0 on an enabled element of the
  module as loaded and up at 50, without movement and with no listener consuming the
  mouse down. At 50 the decision timer is still pending, both DOM events are buffered and
  nothing has been triggered. When the timer fires at 400 exactly three events are
  triggered, in this order: \<^verbatim>\<open>MOUSE_DOWN\<close> and \<^verbatim>\<open>MOUSE_DOWN_ACTIVATE\<close> for the buffered mouse
  down, then \<^verbatim>\<open>MOUSE_CLICK\<close> for the buffered mouse up: the release at 50 cancelled the
  click timer, so the replayed release still counts as a click. Each of the three calls
  of \<^verbatim>\<open>triggerEvent\<close> finds the flag set, the timeout handle and both buffered events
  cleared and no timer pending: the flag is set before anything is triggered, and the
  timer and the buffer are cleared before the replay begins. The replay is
  \<^verbatim>\<open>_doMouseDown\<close> followed by \<^verbatim>\<open>_onMouseUp\<close>, started from that engine.
\<close>

theorem timeout_replays_buffered_release_as_click:
  assumes primary: "buttons e = 1"
    and enabled: "getEnabledElement env (Some (currentTarget e)) = Some ee"
    and notConsumed: "\<forall>d. triggerEvent env (Some (currentTarget e)) MOUSE_DOWN d"
    and pending: "pending = run env [(0, Down e), (50, Up u)] initialEngine"
  shows "doubleClickState pending =
           \<lparr> doubleClickTimeout = Some 1, mouseDownEvent = Some e, mouseUpEvent = Some u,
             ignoreDoubleClick = False \<rparr>
       \<and> timers pending = [\<lparr> handle = 1, due = 400, callback = DoStateMouseDownAndUp \<rparr>]
       \<and> effects pending = []
       \<and> seen pending = []
       \<and> (\<exists>d d'.
            effects (advance env 400 pending) =
              [Triggered (Some (currentTarget e)) MOUSE_DOWN d,
               Triggered (Some (currentTarget e)) MOUSE_DOWN_ACTIVATE d,
               Triggered (Some (currentTarget e)) MOUSE_CLICK d']
          \<and> event d = Some e \<and> event d' = Some u)
       \<and> seen (advance env 400 pending) =
            replicate 3
              \<lparr> seenDoubleClickState =
                  \<lparr> doubleClickTimeout = None, mouseDownEvent = None, mouseUpEvent = None,
                    ignoreDoubleClick = True \<rparr>,
                seenTimers = [] \<rparr>
       \<and> (\<exists>mid.
            ignoreDoubleClick (doubleClickState mid)
          \<and> doubleClickTimeout (doubleClickState mid) = None
          \<and> mouseDownEvent (doubleClickState mid) = None
          \<and> mouseUpEvent (doubleClickState mid) = None
          \<and> timers mid = []
          \<and> effects mid = effects pending
          \<and> doStateMouseDownAndUp env pending = onMouseUp env u (doMouseDown env (Some e) mid))"
proof -
  have a0: "advance env 0 initialEngine = initialEngine"
    by (simp add: advance_def initialEngine_def)
  have idle0: "doubleClickTimeout (doubleClickState initialEngine) = None"
    by (simp add: initialEngine_def)
  define w1 where "w1 = dispatch env (Down e) initialEngine"
  have w1: "w1 = initialEngine\<lparr> state := defaultState\<lparr>
               element := Some (currentTarget e),
               mouseButton := Some 1,
               renderingEngineId := Some (eeRenderingEngineId ee),
               viewportId := Some (eeViewportId ee),
               preventClickTimeout := Some 2,
               startPoints := getMouseEventPoints env e (Some (currentTarget e)),
               lastPoints := getMouseEventPoints env e (Some (currentTarget e)) \<rparr>,
             doubleClickState :=
               \<lparr> doubleClickTimeout = Some 1, mouseDownEvent = Some e, mouseUpEvent = None,
                 ignoreDoubleClick = False \<rparr>,
             lastHandle := 2,
             timers :=
               [\<lparr> handle = 1, due = 400, callback = DoStateMouseDownAndUp \<rparr>,
                \<lparr> handle = 2, due = 200, callback = PreventClickHandler \<rparr>],
             listeners := {(Document, Mousemove, OnMouseDrag), (Document, Mouseup, OnMouseUp)} \<rparr>"
    unfolding w1_def
    by (simp add: dispatch_def mouseDownListener_fresh [OF idle0 enabled] settle_def primary)
       (simp add: initialEngine_def defaultState_def)
  have a1: "advance env 50 w1 = w1\<lparr> now := 50 \<rparr>"
    by (simp add: advance_none_due w1 initialEngine_def)
  have w2: "pending = w1\<lparr> now := 50,
        timers := [\<lparr> handle = 1, due = 400, callback = DoStateMouseDownAndUp \<rparr>],
        doubleClickState :=
               \<lparr> doubleClickTimeout = Some 1, mouseDownEvent = Some e, mouseUpEvent = Some u,
                 ignoreDoubleClick = False \<rparr>,
        listeners := {(Element (currentTarget e), Mousemove, OnMouseMove), (Document, Mouseup, OnMouseUp)} \<rparr>"
    unfolding pending
    by (simp add: a0 w1_def [symmetric] a1)
       (auto simp add: dispatch_def w1 onMouseUp_first [where el = "currentTarget e"] settle_def
          initialEngine_def)
  have a2: "advance env 400 pending =
      settle (doStateMouseDownAndUp env (pending\<lparr> timers := [], now := 400 \<rparr>))\<lparr> now := 400 \<rparr>"
    by (simp add: advance_def w2 w1 fireTimer_DoStateMouseDownAndUp initialEngine_def
          doStateMouseDownAndUp_up settle_def)
  have fired: "\<exists>d d'.
            effects (advance env 400 pending) =
              [Triggered (Some (currentTarget e)) MOUSE_DOWN d,
               Triggered (Some (currentTarget e)) MOUSE_DOWN_ACTIVATE d,
               Triggered (Some (currentTarget e)) MOUSE_CLICK d']
          \<and> event d = Some e \<and> event d' = Some u"
    unfolding a2
    using notConsumed
    by (simp add: w2 w1 doStateMouseDownAndUp_up settle_def initialEngine_def defaultState_def
          mouseDownDetail_def mouseUpDetail_def)
  define mid where "mid = clearDoubleClickTimeoutAndEvents
      (pending\<lparr> doubleClickState := (doubleClickState pending)\<lparr> ignoreDoubleClick := True \<rparr> \<rparr>)"
  have order: "ignoreDoubleClick (doubleClickState mid)
          \<and> doubleClickTimeout (doubleClickState mid) = None
          \<and> mouseDownEvent (doubleClickState mid) = None
          \<and> mouseUpEvent (doubleClickState mid) = None
          \<and> timers mid = []
          \<and> effects mid = effects pending
          \<and> doStateMouseDownAndUp env pending = onMouseUp env u (doMouseDown env (Some e) mid)"
    by (simp add: mid_def clearDoubleClickTimeoutAndEvents_eq doStateMouseDownAndUp_def Let_def)
       (simp add: w2)
  have seen3: "seen (advance env 400 pending) =
            replicate 3
              \<lparr> seenDoubleClickState =
                  \<lparr> doubleClickTimeout = None, mouseDownEvent = None, mouseUpEvent = None,
                    ignoreDoubleClick = True \<rparr>,
                seenTimers = [] \<rparr>"
    unfolding a2
    using notConsumed
    by (simp add: w2 w1 doStateMouseDownAndUp_up settle_def initialEngine_def defaultState_def
          numeral_3_eq_3)
  from fired order seen3 show ?thesis
    by (simp add: w2 w1 initialEngine_def) blast
qed

theorem timeout_replays_buffered_release_as_click_witness:
  "(\<exists>d d'.
      effects clickedOnce =
        [Triggered (Some 7) MOUSE_DOWN d,
         Triggered (Some 7) MOUSE_DOWN_ACTIVATE d,
         Triggered (Some 7) MOUSE_CLICK d']
    \<and> event d = Some (mouseAt 1 10 10) \<and> event d' = Some (mouseAt 0 10 10))
   \<and> seen clickedOnce =
        replicate 3
          \<lparr> seenDoubleClickState =
              \<lparr> doubleClickTimeout = None, mouseDownEvent = None, mouseUpEvent = None,
                ignoreDoubleClick = True \<rparr>,
            seenTimers = [] \<rparr>"
proof -
  have primary: "buttons (mouseAt 1 10 10) = 1"
    by (simp add: mouseAt_def)
  have enabled: "getEnabledElement demoEnv (Some (currentTarget (mouseAt 1 10 10))) =
      Some \<lparr> eeRenderingEngineId = ''engine'', eeViewportId = ''viewport'',
             viewport = Some \<lparr> canvasToWorld = (\<lambda>p. (fst p, snd p, 0)) \<rparr> \<rparr>"
    by (simp add: demoEnv_def mouseAt_def)
  have notConsumed: "\<forall>d. triggerEvent demoEnv (Some (currentTarget (mouseAt 1 10 10))) MOUSE_DOWN d"
    by (simp add: demoEnv_def)
  note run = timeout_replays_buffered_release_as_click
         [OF primary enabled notConsumed refl, of "mouseAt 0 10 10"]
  from run
  have "\<exists>d d'.
      effects (advance demoEnv 400
        (run demoEnv [(0, Down (mouseAt 1 10 10)), (50, Up (mouseAt 0 10 10))] initialEngine)) =
        [Triggered (Some (currentTarget (mouseAt 1 10 10))) MOUSE_DOWN d,
         Triggered (Some (currentTarget (mouseAt 1 10 10))) MOUSE_DOWN_ACTIVATE d,
         Triggered (Some (currentTarget (mouseAt 1 10 10))) MOUSE_CLICK d']
    \<and> event d = Some (mouseAt 1 10 10) \<and> event d' = Some (mouseAt 0 10 10)"
    by blast
  moreover have "currentTarget (mouseAt 1 10 10) = 7"
    by (simp add: mouseAt_def)
  ultimately have triggered: "\<exists>d d'.
      effects clickedOnce =
        [Triggered (Some 7) MOUSE_DOWN d,
         Triggered (Some 7) MOUSE_DOWN_ACTIVATE d,
         Triggered (Some 7) MOUSE_CLICK d']
    \<and> event d = Some (mouseAt 1 10 10) \<and> event d' = Some (mouseAt 0 10 10)"
    by (simp add: clickedOnce_def)
  from run
  have found: "seen clickedOnce =
        replicate 3
          \<lparr> seenDoubleClickState =
              \<lparr> doubleClickTimeout = None, mouseDownEvent = None, mouseUpEvent = None,
                ignoreDoubleClick = True \<rparr>,
            seenTimers = [] \<rparr>"
    unfolding clickedOnce_def by blast
  from triggered found show ?thesis
    by (rule conjI)
qed

text \<open>
  C4 as it stands fails: the third event of the concrete run is \<^verbatim>\<open>MOUSE_CLICK\<close>, not
  \<^verbatim>\<open>MOUSE_UP\<close>.
\<close>

theorem buffered_release_is_click_counterexample:
  "triggeredNames (effects clickedOnce) = [MOUSE_DOWN, MOUSE_DOWN_ACTIVATE, MOUSE_CLICK]
   \<and> triggeredNames (effects clickedOnce) \<noteq> [MOUSE_DOWN, MOUSE_DOWN_ACTIVATE, MOUSE_UP]"
  by (simp add: clickedOnce_def loop_defs handler_defs host_defs demo_defs Let_def)

end
